theory Spec2Isabelle
  imports Main "HOL-Library.Sublist"
begin

section \<open>The notebook \<open>reading-in-sentinel-data.ipynb\<close>\<close>

text \<open>
  The repository's only source file is a Jupyter notebook of ten code cells. Its own code
  is glue: every cell calls into \<open>curl\<close>, \<open>rasterio\<close>, \<open>numpy\<close>, \<open>pyspark\<close> or
  \<open>geopyspark\<close>. The embedding keeps the notebook's statements as they are written and
  takes every library function as a parameter (a field of the record \<open>ext\<close>): a library
  call returns either a value or the exception it raises. What Python itself does in the
  notebook's expressions (dictionary lookup, string slicing, \<open>int()\<close>, list indexing,
  the \<open>for\<close> loop, the \<open>with\<close> block) is written out. The cells run from top to
  bottom, once. What a cell displays (the value of its last expression) is not part of
  the model, except where evaluating it calls a library (lines 149 and 161).
\<close>

subsection \<open>Python values and exceptions\<close>

text \<open>
  The built-in exception classes that occur, with their message, and the exceptions of a
  run: of a class a library defines (\<open>LibError\<close>, with the library's own payload) or of a
  built-in class.
\<close>

datatype py_error =
    KeyError string
  | ValueError string
  | TypeError string
  | IndexError string
  | NameError string

datatype 'x exn = LibError 'x | Builtin py_error

text \<open>The values a CRS dictionary (\<open>f.crs.to_dict()\<close>) can hold.\<close>

datatype 'r pyval = PStr string | PInt int | PNum 'r | PBool bool

text \<open>\<open>d[k]\<close> on a dict: \<open>KeyError\<close> when the key is missing.\<close>

definition py_getitem :: "(string \<rightharpoonup> 'v) \<Rightarrow> string \<Rightarrow> py_error + 'v" where
  "py_getitem d k = (case d k of None \<Rightarrow> Inl (KeyError k) | Some v \<Rightarrow> Inr v)"

text \<open>\<open>v[n:]\<close>: a slice of a string never raises; a number or a bool is not subscriptable.\<close>

fun py_slice_from :: "'r pyval \<Rightarrow> nat \<Rightarrow> py_error + string" where
  "py_slice_from (PStr s) n = Inr (drop n s)"
| "py_slice_from (PInt i) n = Inl (TypeError ''int object is not subscriptable'')"
| "py_slice_from (PNum r) n = Inl (TypeError ''float object is not subscriptable'')"
| "py_slice_from (PBool b) n = Inl (TypeError ''bool object is not subscriptable'')"

text \<open>
  \<open>int(s)\<close> on a string (Python 3.5, the notebook's kernel): surrounding whitespace is
  stripped, one sign is allowed, the rest must be one or more decimal digits; anything
  else raises \<open>ValueError\<close>. Characters are code points below 256; the whitespace
  \<open>int()\<close> strips there is tab, line feed, vertical tab, form feed, carriage return,
  space, next line (133) and no-break space (160). The separators 28 to 31 are not
  stripped: \<open>int()\<close> rejects them.
\<close>

definition is_space :: "char \<Rightarrow> bool" where
  "is_space c = (of_char c \<in> set [9, 10, 11, 12, 13, 32, 133, 160 :: nat])"

definition is_digit :: "char \<Rightarrow> bool" where
  "is_digit c = (48 \<le> (of_char c :: nat) \<and> (of_char c :: nat) \<le> 57)"

definition digit_val :: "char \<Rightarrow> nat" where
  "digit_val c = of_char c - 48"

definition strip :: "string \<Rightarrow> string" where
  "strip s = rev (dropWhile is_space (rev (dropWhile is_space s)))"

definition digits_nat :: "string \<Rightarrow> nat" where
  "digits_nat ds = foldl (\<lambda>a c. 10 * a + digit_val c) 0 ds"

definition int_message :: string where
  "int_message = ''invalid literal for int() with base 10: ''"

definition unsigned_int :: "string \<Rightarrow> string \<Rightarrow> py_error + nat" where
  "unsigned_int s ds =
     (if ds \<noteq> [] \<and> list_all is_digit ds then Inr (digits_nat ds)
      else Inl (ValueError (int_message @ s)))"

definition py_int :: "string \<Rightarrow> py_error + int" where
  "py_int s =
     (let t = strip s in
      if t \<noteq> [] \<and> hd t = CHR ''-'' then map_sum id (\<lambda>n. - int n) (unsigned_int s (tl t))
      else if t \<noteq> [] \<and> hd t = CHR ''+'' then map_sum id int (unsigned_int s (tl t))
      else map_sum id int (unsigned_int s t))"

text \<open>
  The value of a string of decimal digits in positional notation: what "parsing as a
  decimal integer" means, written independently of \<open>py_int\<close>.
\<close>

fun decimal_value :: "string \<Rightarrow> nat" where
  "decimal_value [] = 0"
| "decimal_value (c # cs) = digit_val c * 10 ^ length cs + decimal_value cs"

text \<open>Sequencing of two built-in operations: the first exception wins.\<close>

definition and_then :: "'e + 'a \<Rightarrow> ('a \<Rightarrow> 'e + 'b) \<Rightarrow> 'e + 'b" where
  "and_then r k = (case r of Inl e \<Rightarrow> Inl e | Inr a \<Rightarrow> k a)"

text \<open>The notebook's expression \<open>int(d['init'][5:])\<close> on the CRS dictionary \<open>d\<close>.\<close>

definition epsg_of_dict :: "(string \<rightharpoonup> 'r pyval) \<Rightarrow> py_error + int" where
  "epsg_of_dict d =
     and_then (py_getitem d ''init'') (\<lambda>v. and_then (py_slice_from v 5) py_int)"

subsection \<open>Arrays\<close>

text \<open>
  A band as \<open>f.read(1)\<close> returns it: a two-dimensional \<open>numpy\<close> array with its dtype and
  shape. The stacked array has one more leading dimension.
\<close>

record ('dt, 'c) band =
  band_dtype :: 'dt
  band_shape :: "nat list"
  band_rows :: "'c list list"

record ('dt, 'c) stack =
  stack_dtype :: 'dt
  stack_shape :: "nat list"
  stack_bands :: "'c list list list"

text \<open>
  \<open>np.array(arrs, dtype=d)\<close> on a list of arrays, as \<open>numpy\<close> documents it: arrays of one
  shape are stacked along a new first axis, in list order, and every element is
  converted to \<open>d\<close> (an element already of dtype \<open>d\<close> is copied); with a numeric dtype,
  arrays of different shapes raise \<open>ValueError\<close>. The conversion between two different
  dtypes is the parameter \<open>cast\<close>.
\<close>

definition convert :: "('dt \<Rightarrow> 'dt \<Rightarrow> 'c \<Rightarrow> 'c) \<Rightarrow> 'dt \<Rightarrow> 'dt \<Rightarrow> 'c \<Rightarrow> 'c" where
  "convert cast src dst v = (if src = dst then v else cast src dst v)"

definition converted_rows ::
  "('dt \<Rightarrow> 'dt \<Rightarrow> 'c \<Rightarrow> 'c) \<Rightarrow> 'dt \<Rightarrow> ('dt, 'c) band \<Rightarrow> 'c list list" where
  "converted_rows cast d a = map (map (convert cast (band_dtype a) d)) (band_rows a)"

fun np_array ::
  "('dt \<Rightarrow> 'dt \<Rightarrow> 'c \<Rightarrow> 'c) \<Rightarrow> ('dt, 'c) band list \<Rightarrow> 'dt \<Rightarrow> py_error + ('dt, 'c) stack" where
  "np_array cast [] d = Inr \<lparr>stack_dtype = d, stack_shape = [0], stack_bands = []\<rparr>"
| "np_array cast (a # as) d =
     (if list_all (\<lambda>a'. band_shape a' = band_shape a) as
      then Inr \<lparr>stack_dtype = d,
                stack_shape = length (a # as) # band_shape a,
                stack_bands = map (converted_rows cast d) (a # as)\<rparr>
      else Inl (ValueError ''setting an array element with a sequence.''))"

subsection \<open>The external calls\<close>

text \<open>
  \<open>gps.LayerType\<close>, an enumeration that \<open>geopyspark\<close> declares outside the notebook.
  \<open>SPATIAL\<close> is the member the notebook names; \<open>SPACETIME\<close> is the member for data with
  a time component, which the comment at line 208 says is left aside here.
\<close>

datatype layer_type = SPATIAL | SPACETIME

text \<open>
  Every function of a library the notebook calls. \<open>'b\<close> is the content of a file, \<open>'x\<close>
  the payload of a library's exception, \<open>'o\<close> a library object (dataset handle, Spark
  configuration and context, extent, projected extent, tile, RDD, layer), \<open>'r\<close> a float,
  \<open>'dt\<close> a dtype and \<open>'c\<close> an array element.

  \<open>curl out url\<close> is the shell command \<open>curl -o out url\<close>: it changes the file system and
  exits with a status. \<open>rio_open path content\<close> is \<open>rasterio.open(path)\<close>, which sees the
  file at \<open>path\<close> or its absence. \<open>ds_exit\<close> is the handle after the \<open>with\<close> block has
  closed it.
\<close>

record ('b, 'x, 'o, 'r, 'dt, 'c) ext =
  curl :: "string \<Rightarrow> string \<Rightarrow> (string \<rightharpoonup> 'b) \<Rightarrow> nat \<times> (string \<rightharpoonup> 'b)"
  py_import :: "string \<Rightarrow> 'x exn + unit"
  geopyspark_conf :: "string \<Rightarrow> string \<Rightarrow> 'x exn + 'o"
  SparkContext :: "'o \<Rightarrow> 'x exn + 'o"
  rio_open :: "string \<Rightarrow> 'b option \<Rightarrow> 'x exn + 'o"
  ds_read :: "'o \<Rightarrow> nat \<Rightarrow> 'x exn + ('dt, 'c) band"
  ds_exit :: "'o \<Rightarrow> 'o"
  ds_bounds :: "'o \<Rightarrow> 'x exn + ('r \<times> 'r \<times> 'r \<times> 'r)"
  ds_crs_to_dict :: "'o \<Rightarrow> 'x exn + (string \<rightharpoonup> 'r pyval)"
  ds_nodata :: "'o \<Rightarrow> 'x exn + 'r option"
  np_cast :: "'dt \<Rightarrow> 'dt \<Rightarrow> 'c \<Rightarrow> 'c"
  gps_Extent :: "'r \<Rightarrow> 'r \<Rightarrow> 'r \<Rightarrow> 'r \<Rightarrow> 'x exn + 'o"
  gps_ProjectedExtent :: "'o \<Rightarrow> int \<Rightarrow> 'x exn + 'o"
  Tile_from_numpy_array :: "('dt, 'c) stack \<Rightarrow> 'r option \<Rightarrow> 'x exn + 'o"
  parallelize :: "'o \<Rightarrow> ('o \<times> 'o) list \<Rightarrow> 'x exn + 'o"
  from_numpy_rdd :: "layer_type \<Rightarrow> 'o \<Rightarrow> 'x exn + 'o"

text \<open>
  The call sites of the notebook. A call site inside the loop is told apart by the path
  it works on, the three calls of \<open>f.crs.to_dict()\<close> by their line in the file.
\<close>

datatype call =
    Curl string string
  | Import string
  | GeopysparkConf
  | SparkContextNew
  | RasterioOpen string
  | DatasetRead string
  | DatasetExit string
  | NpArray
  | DatasetBounds
  | GpsExtent
  | DatasetCrsToDict nat
  | GpsProjectedExtent
  | DatasetNodata
  | TileFromNumpyArray
  | Parallelize
  | RasterLayerFromNumpyRdd

datatype 'x outcome = Returned | Raised "'x exn" | Exited nat

text \<open>The state of a run: the file system and the trace of external calls made so far.\<close>

record ('b, 'x) world =
  fs :: "string \<rightharpoonup> 'b"
  trace :: "(call \<times> 'x outcome) list"

type_synonym ('a, 'b, 'x) nb = "('b, 'x) world \<Rightarrow> ('x exn + 'a) \<times> ('b, 'x) world"

definition ret :: "'a \<Rightarrow> ('a, 'b, 'x) nb" where
  "ret a w = (Inr a, w)"

definition raise :: "'x exn \<Rightarrow> ('a, 'b, 'x) nb" where
  "raise e w = (Inl e, w)"

text \<open>One statement after another: an exception ends the run.\<close>

definition next_do :: "('a, 'b, 'x) nb \<Rightarrow> ('a \<Rightarrow> ('c, 'b, 'x) nb) \<Rightarrow> ('c, 'b, 'x) nb" where
  "next_do m k w = (case m w of (Inl e, w') \<Rightarrow> (Inl e, w') | (Inr a, w') \<Rightarrow> k a w')"

text \<open>A value computed by Python itself: no external call, no trace entry.\<close>

definition builtin :: "py_error + 'a \<Rightarrow> ('a, 'b, 'x) nb" where
  "builtin r w = (map_sum Builtin id r, w)"

text \<open>A call into a library at call site \<open>c\<close>, with the result \<open>r\<close> the library gives.\<close>

definition extern :: "call \<Rightarrow> 'x exn + 'a \<Rightarrow> ('a, 'b, 'x) nb" where
  "extern c r w =
     (case r of
        Inl e \<Rightarrow> (Inl e, w\<lparr>trace := trace w @ [(c, Raised e)]\<rparr>)
      | Inr a \<Rightarrow> (Inr a, w\<lparr>trace := trace w @ [(c, Returned)]\<rparr>))"

text \<open>
  \<open>!curl -o out url\<close>: IPython runs the command in a shell. The exit status is not
  returned to the cell and no exception is raised, whatever the status.
\<close>

definition curl_o :: "('b, 'x, 'o, 'r, 'dt, 'c) ext \<Rightarrow> string \<Rightarrow> string \<Rightarrow> (unit, 'b, 'x) nb" where
  "curl_o E out url w =
     (case curl E out url (fs w) of
        (status, fs') \<Rightarrow> (Inr (), \<lparr>fs = fs', trace = trace w @ [(Curl out url, Exited status)]\<rparr>))"

definition rasterio_open :: "('b, 'x, 'o, 'r, 'dt, 'c) ext \<Rightarrow> string \<Rightarrow> ('o, 'b, 'x) nb" where
  "rasterio_open E path w = extern (RasterioOpen path) (rio_open E path (fs w path)) w"

text \<open>
  \<open>with rasterio.open(jp2) as f: body\<close>: the handle is bound to \<open>f\<close>, the body runs, and
  the handle is closed whether the body raised or not; an exception of the body goes on.
  The result is the body's value and the handle as the block leaves it.
\<close>

definition with_open ::
  "('b, 'x, 'o, 'r, 'dt, 'c) ext \<Rightarrow> string \<Rightarrow> ('o \<Rightarrow> ('a, 'b, 'x) nb) \<Rightarrow> ('a \<times> 'o, 'b, 'x) nb" where
  "with_open E jp2 body =
     next_do (rasterio_open E jp2) (\<lambda>f w.
       case body f w of
         (r, w') \<Rightarrow> (map_sum id (\<lambda>a. (a, ds_exit E f)) r,
                     w'\<lparr>trace := trace w' @ [(DatasetExit jp2, Returned)]\<rparr>))"

subsection \<open>The cells\<close>

definition B01_url :: string where
  "B01_url = ''http://sentinel-s2-l1c.s3.amazonaws.com/tiles/32/T/NM/2017/1/4/0/B01.jp2''"

definition B09_url :: string where
  "B09_url = ''http://sentinel-s2-l1c.s3.amazonaws.com/tiles/32/T/NM/2017/1/4/0/B09.jp2''"

definition B10_url :: string where
  "B10_url = ''http://sentinel-s2-l1c.s3.amazonaws.com/tiles/32/T/NM/2017/1/4/0/B10.jp2''"

definition jp2s :: "string list" where
  "jp2s = [''/tmp/B01.jp2'', ''/tmp/B09.jp2'', ''/tmp/B10.jp2'']"

text \<open>Lines 39 to 41: the three downloads.\<close>

definition cell_download :: "('b, 'x, 'o, 'r, 'dt, 'c) ext \<Rightarrow> (unit, 'b, 'x) nb" where
  "cell_download E =
     next_do (curl_o E ''/tmp/B01.jp2'' B01_url) (\<lambda>_.
     next_do (curl_o E ''/tmp/B09.jp2'' B09_url) (\<lambda>_.
     curl_o E ''/tmp/B10.jp2'' B10_url))"

text \<open>Lines 61 to 65: the imports.\<close>

definition cell_import :: "('b, 'x, 'o, 'r, 'dt, 'c) ext \<Rightarrow> (unit, 'b, 'x) nb" where
  "cell_import E =
     next_do (extern (Import ''rasterio'') (py_import E ''rasterio'')) (\<lambda>_.
     next_do (extern (Import ''geopyspark'') (py_import E ''geopyspark'')) (\<lambda>_.
     next_do (extern (Import ''numpy'') (py_import E ''numpy'')) (\<lambda>_.
     extern (Import ''pyspark'') (py_import E ''pyspark''))))"

text \<open>Lines 76 and 77: the Spark configuration and context.\<close>

definition cell_context :: "('b, 'x, 'o, 'r, 'dt, 'c) ext \<Rightarrow> ('o \<times> 'o, 'b, 'x) nb" where
  "cell_context E =
     next_do (extern GeopysparkConf
                (geopyspark_conf E ''local[*]'' ''sentinel-ingest-example'')) (\<lambda>conf.
     next_do (extern SparkContextNew (SparkContext E conf)) (\<lambda>pysc.
     ret (conf, pysc)))"

text \<open>
  Lines 100 to 102: the loop over the paths. \<open>arrs\<close> grows by one band per file, and \<open>f\<close>
  is the loop's variable: unbound before the first iteration, the handle of the file
  read last afterwards.
\<close>

fun read_loop ::
  "('b, 'x, 'o, 'r, 'dt, 'c) ext \<Rightarrow> string list \<Rightarrow> ('dt, 'c) band list \<Rightarrow> 'o option \<Rightarrow>
     (('dt, 'c) band list \<times> 'o option, 'b, 'x) nb" where
  "read_loop E [] arrs f = ret (arrs, f)"
| "read_loop E (jp2 # rest) arrs f =
     next_do (with_open E jp2 (\<lambda>f'. extern (DatasetRead jp2) (ds_read E f' 1))) (\<lambda>(a, f').
     read_loop E rest (arrs @ [a]) (Some f'))"

text \<open>Line 104: \<open>data = np.array(arrs, dtype=arrs[0].dtype)\<close>.\<close>

definition stack_arrs ::
  "('b, 'x, 'o, 'r, 'dt, 'c) ext \<Rightarrow> ('dt, 'c) band list \<Rightarrow> (('dt, 'c) stack, 'b, 'x) nb" where
  "stack_arrs E arrs =
     (case arrs of
        [] \<Rightarrow> raise (Builtin (IndexError ''list index out of range''))
      | a0 # _ \<Rightarrow>
          extern NpArray (map_sum Builtin id (np_array (np_cast E) arrs (band_dtype a0))))"

text \<open>Lines 97 to 104.\<close>

definition cell_read ::
  "('b, 'x, 'o, 'r, 'dt, 'c) ext \<Rightarrow>
     (('dt, 'c) band list \<times> 'o option \<times> ('dt, 'c) stack, 'b, 'x) nb" where
  "cell_read E =
     next_do (read_loop E jp2s [] None) (\<lambda>(arrs, f).
     next_do (stack_arrs E arrs) (\<lambda>data.
     ret (arrs, f, data)))"

text \<open>Reading the variable \<open>f\<close>: \<open>NameError\<close> when the loop never bound it.\<close>

definition name_f :: "'o option \<Rightarrow> ('o, 'b, 'x) nb" where
  "name_f f = (case f of None \<Rightarrow> raise (Builtin (NameError ''f'')) | Some h \<Rightarrow> ret h)"

text \<open>\<open>int(f.crs.to_dict()['init'][5:])\<close>, at the given line.\<close>

definition epsg_code :: "('b, 'x, 'o, 'r, 'dt, 'c) ext \<Rightarrow> nat \<Rightarrow> 'o option \<Rightarrow> (int, 'b, 'x) nb" where
  "epsg_code E line f =
     next_do (name_f f) (\<lambda>h.
     next_do (extern (DatasetCrsToDict line) (ds_crs_to_dict E h)) (\<lambda>d.
     builtin (epsg_of_dict d)))"

text \<open>Lines 126 to 129: the extent and the projected extent.\<close>

definition cell_extent ::
  "('b, 'x, 'o, 'r, 'dt, 'c) ext \<Rightarrow> 'o option \<Rightarrow> ('o \<times> 'o, 'b, 'x) nb" where
  "cell_extent E f =
     next_do (name_f f) (\<lambda>h.
     next_do (extern DatasetBounds (ds_bounds E h)) (\<lambda>(left, bottom, right, top).
     next_do (extern GpsExtent (gps_Extent E left bottom right top)) (\<lambda>extent.
     next_do (epsg_code E 129 f) (\<lambda>epsg.
     next_do (extern GpsProjectedExtent (gps_ProjectedExtent E extent epsg)) (\<lambda>projected_extent.
     ret (extent, projected_extent))))))"

text \<open>Line 149: the cell that shows \<open>f.crs.to_dict()\<close>.\<close>

definition cell_crs ::
  "('b, 'x, 'o, 'r, 'dt, 'c) ext \<Rightarrow> 'o option \<Rightarrow> (string \<rightharpoonup> 'r pyval, 'b, 'x) nb" where
  "cell_crs E f =
     next_do (name_f f) (\<lambda>h. extern (DatasetCrsToDict 149) (ds_crs_to_dict E h))"

text \<open>Line 161: the cell that shows the EPSG code.\<close>

definition cell_epsg :: "('b, 'x, 'o, 'r, 'dt, 'c) ext \<Rightarrow> 'o option \<Rightarrow> (int, 'b, 'x) nb" where
  "cell_epsg E f = epsg_code E 161 f"

text \<open>Line 173: the tile.\<close>

definition cell_tile ::
  "('b, 'x, 'o, 'r, 'dt, 'c) ext \<Rightarrow> ('dt, 'c) stack \<Rightarrow> 'o option \<Rightarrow> ('o, 'b, 'x) nb" where
  "cell_tile E data f =
     next_do (name_f f) (\<lambda>h.
     next_do (extern DatasetNodata (ds_nodata E h)) (\<lambda>nodata.
     extern TileFromNumpyArray (Tile_from_numpy_array E data nodata)))"

text \<open>Line 187: the RDD.\<close>

definition cell_rdd :: "('b, 'x, 'o, 'r, 'dt, 'c) ext \<Rightarrow> 'o \<Rightarrow> 'o \<Rightarrow> 'o \<Rightarrow> ('o, 'b, 'x) nb" where
  "cell_rdd E pysc projected_extent tile =
     extern Parallelize (parallelize E pysc [(projected_extent, tile)])"

text \<open>Line 210: the layer.\<close>

definition cell_layer :: "('b, 'x, 'o, 'r, 'dt, 'c) ext \<Rightarrow> 'o \<Rightarrow> ('o, 'b, 'x) nb" where
  "cell_layer E rdd = extern RasterLayerFromNumpyRdd (from_numpy_rdd E SPATIAL rdd)"

text \<open>The variables of the notebook when its last cell has run.\<close>

record ('o, 'dt, 'c) namespace =
  ns_conf :: 'o
  ns_pysc :: 'o
  ns_arrs :: "('dt, 'c) band list"
  ns_f :: "'o option"
  ns_data :: "('dt, 'c) stack"
  ns_extent :: 'o
  ns_projected_extent :: 'o
  ns_tile :: 'o
  ns_rdd :: 'o
  ns_raster_layer :: 'o

text \<open>The cells after the download, from top to bottom.\<close>

definition after_download ::
  "('b, 'x, 'o, 'r, 'dt, 'c) ext \<Rightarrow> (('o, 'dt, 'c) namespace, 'b, 'x) nb" where
  "after_download E =
     next_do (cell_import E) (\<lambda>_.
     next_do (cell_context E) (\<lambda>(conf, pysc).
     next_do (cell_read E) (\<lambda>(arrs, f, data).
     next_do (cell_extent E f) (\<lambda>(extent, projected_extent).
     next_do (cell_crs E f) (\<lambda>_.
     next_do (cell_epsg E f) (\<lambda>_.
     next_do (cell_tile E data f) (\<lambda>tile.
     next_do (cell_rdd E pysc projected_extent tile) (\<lambda>rdd.
     next_do (cell_layer E rdd) (\<lambda>raster_layer.
     ret \<lparr>ns_conf = conf, ns_pysc = pysc, ns_arrs = arrs, ns_f = f, ns_data = data,
          ns_extent = extent, ns_projected_extent = projected_extent, ns_tile = tile,
          ns_rdd = rdd, ns_raster_layer = raster_layer\<rparr>)))))))))"

definition notebook ::
  "('b, 'x, 'o, 'r, 'dt, 'c) ext \<Rightarrow> (('o, 'dt, 'c) namespace, 'b, 'x) nb" where
  "notebook E = next_do (cell_download E) (\<lambda>_. after_download E)"

text \<open>A run of the whole notebook on a file system, with an empty trace.\<close>

definition run ::
  "('b, 'x, 'o, 'r, 'dt, 'c) ext \<Rightarrow> (string \<rightharpoonup> 'b) \<Rightarrow>
     ('x exn + ('o, 'dt, 'c) namespace) \<times> ('b, 'x) world" where
  "run E files = notebook E \<lparr>fs = files, trace = []\<rparr>"

text \<open>The file system as the download cell leaves it.\<close>

definition downloaded ::
  "('b, 'x, 'o, 'r, 'dt, 'c) ext \<Rightarrow> (string \<rightharpoonup> 'b) \<Rightarrow> (string \<rightharpoonup> 'b)" where
  "downloaded E files =
     snd (curl E ''/tmp/B10.jp2'' B10_url
       (snd (curl E ''/tmp/B09.jp2'' B09_url
         (snd (curl E ''/tmp/B01.jp2'' B01_url files)))))"

text \<open>The decoded first band of the file at a path: \<open>rasterio.open(path).read(1)\<close>.\<close>

definition decoded ::
  "('b, 'x, 'o, 'r, 'dt, 'c) ext \<Rightarrow> (string \<rightharpoonup> 'b) \<Rightarrow> string \<Rightarrow> 'x exn + ('dt, 'c) band" where
  "decoded E files path = and_then (rio_open E path (files path)) (\<lambda>h. ds_read E h 1)"

text \<open>
  A piece of the notebook is a function of the three files when two worlds that hold the
  same files at the three paths give it the same result and leave the files the same.
\<close>

definition function_of_files :: "('a, 'b, 'x) nb \<Rightarrow> bool" where
  "function_of_files m \<longleftrightarrow>
     (\<forall>w1 w2. map (fs w1) jp2s = map (fs w2) jp2s \<longrightarrow>
        fst (m w1) = fst (m w2) \<and> map (fs (snd (m w1))) jp2s = map (fs (snd (m w2))) jp2s)"


text \<open>
  The EPSG code and the nodata value the notebook reads from the handle \<open>f\<close> of a
  namespace (they are arguments of calls, not variables of their own).
\<close>

definition epsg_read ::
  "('b, 'x, 'o, 'r, 'dt, 'c) ext \<Rightarrow> ('o, 'dt, 'c) namespace \<Rightarrow> ('x exn + int) option" where
  "epsg_read E ns =
     map_option (\<lambda>h. and_then (ds_crs_to_dict E h) (\<lambda>d. map_sum Builtin id (epsg_of_dict d)))
       (ns_f ns)"

definition nodata_read ::
  "('b, 'x, 'o, 'r, 'dt, 'c) ext \<Rightarrow> ('o, 'dt, 'c) namespace \<Rightarrow> ('x exn + 'r option) option" where
  "nodata_read E ns = map_option (ds_nodata E) (ns_f ns)"

subsection \<open>Reading the trace\<close>

text \<open>
  The library a call goes into, by the name under which it is imported; an import goes
  into the module it names. \<open>curl\<close> is a program, not a library.
\<close>

fun library_of :: "call \<Rightarrow> string option" where
  "library_of (Curl out url) = None"
| "library_of (Import m) = Some m"
| "library_of GeopysparkConf = Some ''geopyspark''"
| "library_of SparkContextNew = Some ''pyspark''"
| "library_of (RasterioOpen p) = Some ''rasterio''"
| "library_of (DatasetRead p) = Some ''rasterio''"
| "library_of (DatasetExit p) = Some ''rasterio''"
| "library_of NpArray = Some ''numpy''"
| "library_of DatasetBounds = Some ''rasterio''"
| "library_of GpsExtent = Some ''geopyspark''"
| "library_of (DatasetCrsToDict line) = Some ''rasterio''"
| "library_of GpsProjectedExtent = Some ''geopyspark''"
| "library_of DatasetNodata = Some ''rasterio''"
| "library_of TileFromNumpyArray = Some ''geopyspark''"
| "library_of Parallelize = Some ''pyspark''"
| "library_of RasterLayerFromNumpyRdd = Some ''geopyspark''"

definition libraries :: "call list \<Rightarrow> string set" where
  "libraries cs = set (List.map_filter library_of cs)"

text \<open>The modules a trace imports, in order.\<close>

fun import_of :: "call \<Rightarrow> string list" where
  "import_of (Import m) = [m]"
| "import_of c = []"

definition imported :: "call list \<Rightarrow> string list" where
  "imported cs = concat (map import_of cs)"

text \<open>
  The six steps of the pipeline. The imports and the creation of the Spark context
  prepare the run and belong to none of them.
\<close>

datatype step = Download | Decode | Stack | Wrap | ConstructRDD | ConstructLayer

fun step_of :: "call \<Rightarrow> step option" where
  "step_of (Curl out url) = Some Download"
| "step_of (Import m) = None"
| "step_of GeopysparkConf = None"
| "step_of SparkContextNew = None"
| "step_of (RasterioOpen p) = Some Decode"
| "step_of (DatasetRead p) = Some Decode"
| "step_of (DatasetExit p) = Some Decode"
| "step_of NpArray = Some Stack"
| "step_of DatasetBounds = Some Wrap"
| "step_of GpsExtent = Some Wrap"
| "step_of (DatasetCrsToDict line) = Some Wrap"
| "step_of GpsProjectedExtent = Some Wrap"
| "step_of DatasetNodata = Some Wrap"
| "step_of TileFromNumpyArray = Some Wrap"
| "step_of Parallelize = Some ConstructRDD"
| "step_of RasterLayerFromNumpyRdd = Some ConstructLayer"

fun step_index :: "step \<Rightarrow> nat" where
  "step_index Download = 0"
| "step_index Decode = 1"
| "step_index Stack = 2"
| "step_index Wrap = 3"
| "step_index ConstructRDD = 4"
| "step_index ConstructLayer = 5"

definition steps :: "call list \<Rightarrow> step list" where
  "steps cs = List.map_filter step_of cs"

definition calls_of_step :: "step \<Rightarrow> call list \<Rightarrow> call list" where
  "calls_of_step s cs = filter (\<lambda>c. step_of c = Some s) cs"

text \<open>The calls a run has made, in order.\<close>

definition calls :: "('x exn + 'a) \<times> ('b, 'x) world \<Rightarrow> call list" where
  "calls r = map fst (trace (snd r))"

text \<open>The exceptions the external calls of a trace have raised.\<close>

fun raised_by :: "call \<times> 'x outcome \<Rightarrow> 'x exn list" where
  "raised_by (c, Raised e) = [e]"
| "raised_by (c, Returned) = []"
| "raised_by (c, Exited n) = []"

definition raised :: "(call \<times> 'x outcome) list \<Rightarrow> 'x exn list" where
  "raised evs = concat (map raised_by evs)"

text \<open>The exit statuses of the shell commands of a trace.\<close>

fun exited_by :: "call \<times> 'x outcome \<Rightarrow> nat list" where
  "exited_by (c, Exited n) = [n]"
| "exited_by (c, Returned) = []"
| "exited_by (c, Raised e) = []"

definition exit_statuses :: "(call \<times> 'x outcome) list \<Rightarrow> nat list" where
  "exit_statuses evs = concat (map exited_by evs)"

text \<open>The download commands of a trace: output path and URL.\<close>

fun download_of :: "call \<Rightarrow> (string \<times> string) list" where
  "download_of (Curl out url) = [(out, url)]"
| "download_of c = []"

definition downloads :: "call list \<Rightarrow> (string \<times> string) list" where
  "downloads cs = concat (map download_of cs)"

text \<open>The host of an \<open>http\<close> URL: what stands between \<open>http://\<close> and the next slash.\<close>

definition url_host :: "string \<Rightarrow> string option" where
  "url_host u =
     (if take 7 u = ''http://'' then Some (takeWhile (\<lambda>c. c \<noteq> CHR ''/'') (drop 7 u))
      else None)"

text \<open>Every call site of the notebook, in the order of the text.\<close>

definition download_calls :: "call list" where
  "download_calls =
     [Curl ''/tmp/B01.jp2'' B01_url, Curl ''/tmp/B09.jp2'' B09_url, Curl ''/tmp/B10.jp2'' B10_url]"

definition loop_calls :: "string \<Rightarrow> call list" where
  "loop_calls jp2 = [RasterioOpen jp2, DatasetRead jp2, DatasetExit jp2]"

definition later_calls :: "call list" where
  "later_calls =
     [Import ''rasterio'', Import ''geopyspark'', Import ''numpy'', Import ''pyspark'',
      GeopysparkConf, SparkContextNew]
     @ concat (map loop_calls jp2s) @
     [NpArray,
      DatasetBounds, GpsExtent, DatasetCrsToDict 129, GpsProjectedExtent,
      DatasetCrsToDict 149, DatasetCrsToDict 161,
      DatasetNodata, TileFromNumpyArray,
      Parallelize,
      RasterLayerFromNumpyRdd]"

definition notebook_calls :: "call list" where
  "notebook_calls = download_calls @ later_calls"

text \<open>
  The exceptions Python itself raises when it evaluates \<open>int(d['init'][5:])\<close>: a CRS
  dictionary without \<open>'init'\<close>, an entry that is no string, a string \<open>int()\<close> rejects.
  The \<open>IndexError\<close> of \<open>arrs[0]\<close> and the \<open>NameError\<close> of an unbound \<open>f\<close> are not among
  them.
\<close>

fun python_raises :: "py_error \<Rightarrow> bool" where
  "python_raises (KeyError k) = (k = ''init'')"
| "python_raises (ValueError m) = prefix int_message m"
| "python_raises (TypeError m) =
     (m \<in> set [''int object is not subscriptable'', ''float object is not subscriptable'',
                ''bool object is not subscriptable''])"
| "python_raises (IndexError m) = False"
| "python_raises (NameError n) = False"

fun raised_by_python :: "'x exn \<Rightarrow> bool" where
  "raised_by_python (LibError x) = False"
| "raised_by_python (Builtin p) = python_raises p"

text \<open>
  What a piece of the notebook does to the trace: it appends the calls \<open>cs\<close> when it
  returns and a prefix of them when it raises; no shell command is among them; and an
  exception that ends it is the one a call of it raised, or one of Python's above.
\<close>

definition tracks :: "('a, 'b, 'x) nb \<Rightarrow> call list \<Rightarrow> bool" where
  "tracks m cs \<longleftrightarrow>
     (\<forall>w. \<exists>evs. trace (snd (m w)) = trace w @ evs \<and> exit_statuses evs = [] \<and>
        (case fst (m w) of
           Inr a \<Rightarrow> map fst evs = cs \<and> raised evs = []
         | Inl e \<Rightarrow> prefix (map fst evs) cs \<and>
                    (raised evs = [e] \<or> raised evs = [] \<and> raised_by_python e)))"

subsection \<open>A reference interpretation of the libraries\<close>

text \<open>
  One concrete choice of the libraries, on which the notebook can be run: files hold a
  decoded band with its metadata, library objects are the terms that build them, numbers
  are integers and the dtypes are three of \<open>rasterio\<close>'s integer dtypes, converted as
  \<open>numpy\<close> does (modulo the width of the target).
\<close>

datatype dtype = UInt8 | UInt16 | Int16

fun cast_int :: "dtype \<Rightarrow> dtype \<Rightarrow> int \<Rightarrow> int" where
  "cast_int src UInt8 v = v mod 256"
| "cast_int src UInt16 v = v mod 65536"
| "cast_int src Int16 v = (v + 32768) mod 65536 - 32768"

record jp2_file =
  jp2_band :: "(dtype, int) band"
  jp2_bounds :: "int \<times> int \<times> int \<times> int"
  jp2_crs :: "(string \<times> int pyval) list"
  jp2_nodata :: "int option"

datatype content = JP2 jp2_file | NoImage string

datatype obj =
    Dataset string jp2_file bool
  | SparkConf string string
  | SparkCtx obj
  | ExtentObj int int int int
  | ProjectedExtentObj obj int
  | TileObj "(dtype, int) stack" "int option"
  | RDD obj "(obj \<times> obj) list"
  | RasterLayer layer_type obj

text \<open>A server that answers every URL it knows; an unknown URL makes \<open>curl\<close> exit with 6.\<close>

definition ref_curl ::
  "(string \<rightharpoonup> content) \<Rightarrow> string \<Rightarrow> string \<Rightarrow> (string \<rightharpoonup> content) \<Rightarrow> nat \<times> (string \<rightharpoonup> content)" where
  "ref_curl server out url files =
     (case server url of None \<Rightarrow> (6, files) | Some b \<Rightarrow> (0, files(out \<mapsto> b)))"

fun ref_open :: "string \<Rightarrow> content option \<Rightarrow> string exn + obj" where
  "ref_open path None = Inl (LibError (''RasterioIOError: No such file: '' @ path))"
| "ref_open path (Some (NoImage s)) = Inl (LibError (''RasterioIOError: not recognized: '' @ path))"
| "ref_open path (Some (JP2 j)) = Inr (Dataset path j True)"

fun ref_read :: "obj \<Rightarrow> nat \<Rightarrow> string exn + (dtype, int) band" where
  "ref_read (Dataset path j is_open) n =
     (if \<not> is_open then Inl (LibError ''RasterioIOError: Dataset is closed'')
      else if n = 1 then Inr (jp2_band j)
      else Inl (Builtin (IndexError ''band index out of range'')))"
| "ref_read h n = Inl (Builtin (TypeError ''not a dataset''))"

fun ref_exit :: "obj \<Rightarrow> obj" where
  "ref_exit (Dataset path j is_open) = Dataset path j False"
| "ref_exit h = h"

fun ref_bounds :: "obj \<Rightarrow> string exn + (int \<times> int \<times> int \<times> int)" where
  "ref_bounds (Dataset path j is_open) = Inr (jp2_bounds j)"
| "ref_bounds h = Inl (Builtin (TypeError ''not a dataset''))"

fun ref_crs_to_dict :: "obj \<Rightarrow> string exn + (string \<rightharpoonup> int pyval)" where
  "ref_crs_to_dict (Dataset path j is_open) = Inr (map_of (jp2_crs j))"
| "ref_crs_to_dict h = Inl (Builtin (TypeError ''not a dataset''))"

fun ref_nodata :: "obj \<Rightarrow> string exn + int option" where
  "ref_nodata (Dataset path j is_open) = Inr (jp2_nodata j)"
| "ref_nodata h = Inl (Builtin (TypeError ''not a dataset''))"

definition ref_ext :: "(string \<rightharpoonup> content) \<Rightarrow> (content, string, obj, int, dtype, int) ext" where
  "ref_ext server =
     \<lparr>curl = ref_curl server,
      py_import = (\<lambda>m. Inr ()),
      geopyspark_conf = (\<lambda>master app. Inr (SparkConf master app)),
      SparkContext = (\<lambda>conf. Inr (SparkCtx conf)),
      rio_open = ref_open,
      ds_read = ref_read,
      ds_exit = ref_exit,
      ds_bounds = ref_bounds,
      ds_crs_to_dict = ref_crs_to_dict,
      ds_nodata = ref_nodata,
      np_cast = cast_int,
      gps_Extent = (\<lambda>xmin ymin xmax ymax. Inr (ExtentObj xmin ymin xmax ymax)),
      gps_ProjectedExtent = (\<lambda>extent epsg. Inr (ProjectedExtentObj extent epsg)),
      Tile_from_numpy_array = (\<lambda>data nodata. Inr (TileObj data nodata)),
      parallelize = (\<lambda>pysc pairs. Inr (RDD pysc pairs)),
      from_numpy_rdd = (\<lambda>t rdd. Inr (RasterLayer t rdd))\<rparr>"

text \<open>Three small tiles of one area, as the bucket would serve them.\<close>

definition tile_file :: "dtype \<Rightarrow> int list \<Rightarrow> string \<Rightarrow> content" where
  "tile_file d row init =
     JP2 \<lparr>jp2_band = \<lparr>band_dtype = d, band_shape = [1, 2], band_rows = [row]\<rparr>,
          jp2_bounds = (499980, 4690200, 609780, 4800000),
          jp2_crs = [(''init'', PStr init)],
          jp2_nodata = None\<rparr>"

definition bucket :: "string \<rightharpoonup> content" where
  "bucket =
     [B01_url \<mapsto> tile_file UInt16 [1190, 1210] ''epsg:32632'',
      B09_url \<mapsto> tile_file UInt16 [310, 298] ''epsg:32632'',
      B10_url \<mapsto> tile_file UInt16 [12, 9] ''epsg:32632'']"

text \<open>The same area with bands of different dtypes and other CRS entries in the first two files.\<close>

definition mixed_bucket :: "string \<rightharpoonup> content" where
  "mixed_bucket =
     [B01_url \<mapsto> tile_file UInt8 [17, 23] ''epsg:4326'',
      B09_url \<mapsto> tile_file UInt16 [300, 4] ''epsg:3857'',
      B10_url \<mapsto> tile_file UInt16 [12, 9] ''epsg:32632'']"

text \<open>No network, and the files of an earlier run still in \<open>/tmp\<close>.\<close>

definition offline :: "string \<rightharpoonup> content" where
  "offline = Map.empty"

definition stale_tmp :: "string \<rightharpoonup> content" where
  "stale_tmp =
     [''/tmp/B01.jp2'' \<mapsto> tile_file UInt16 [1190, 1210] ''epsg:32632'',
      ''/tmp/B09.jp2'' \<mapsto> tile_file UInt16 [310, 298] ''epsg:32632'',
      ''/tmp/B10.jp2'' \<mapsto> tile_file UInt16 [12, 9] ''epsg:32632'']"


text \<open>The handle of the third file once its \<open>with\<close> block has closed it.\<close>

definition B10_handle :: obj where
  "B10_handle =
     Dataset ''/tmp/B10.jp2''
       \<lparr>jp2_band = \<lparr>band_dtype = UInt16, band_shape = [1, 2], band_rows = [[12, 9]]\<rparr>,
        jp2_bounds = (499980, 4690200, 609780, 4800000),
        jp2_crs = [(''init'', PStr ''epsg:32632'')],
        jp2_nodata = None\<rparr>
       False"

text \<open>A metadata accessor that answers for one handle only and raises for every other.\<close>

definition only_for :: "obj \<Rightarrow> (obj \<Rightarrow> string exn + 'a) \<Rightarrow> obj \<Rightarrow> string exn + 'a" where
  "only_for h0 g h = (if h = h0 then g h else Inl (LibError ''not the last file''))"

section \<open>What a piece that returns has computed\<close>

lemma next_do_Inr:
  "next_do m k w = (Inr b, w2) \<longleftrightarrow> (\<exists>a w1. m w = (Inr a, w1) \<and> k a w1 = (Inr b, w2))"
  by (cases "m w") (auto simp: next_do_def split: sum.splits)

lemma extern_Inr:
  "extern c r w = (Inr a, w1) \<longleftrightarrow> r = Inr a \<and> w1 = w\<lparr>trace := trace w @ [(c, Returned)]\<rparr>"
  by (cases r) (auto simp: extern_def)

lemma ret_Inr: "ret a w = (Inr b, w1) \<longleftrightarrow> b = a \<and> w1 = w"
  by (auto simp: ret_def)

lemma raise_Inr: "raise e w = (Inr b, w1) \<longleftrightarrow> False"
  by (simp add: raise_def)

lemma builtin_Inr: "builtin r w = (Inr b, w1) \<longleftrightarrow> r = Inr b \<and> w1 = w"
  by (cases r) (auto simp: builtin_def)

lemma map_sum_id_Inr: "map_sum g id r = Inr a \<longleftrightarrow> r = Inr a"
  by (cases r) simp_all

lemma name_f_Inr: "name_f f w = (Inr h, w1) \<longleftrightarrow> f = Some h \<and> w1 = w"
  by (cases f) (auto simp: name_f_def raise_def ret_def)

lemma cell_download_fs: "fs (snd (cell_download E w)) = downloaded E (fs w)"
  by (simp add: cell_download_def next_do_def curl_o_def downloaded_def split: prod.splits)

lemma cell_import_Inr: "cell_import E w = (Inr u, w1) \<Longrightarrow> fs w1 = fs w"
  by (auto simp: cell_import_def next_do_Inr extern_Inr)

lemma cell_context_Inr:
  "cell_context E w = (Inr (conf, pysc), w1) \<Longrightarrow>
     geopyspark_conf E ''local[*]'' ''sentinel-ingest-example'' = Inr conf \<and>
     SparkContext E conf = Inr pysc \<and> fs w1 = fs w"
  by (auto simp: cell_context_def next_do_Inr extern_Inr ret_Inr)

lemma with_open_Inr:
  assumes "with_open E p (\<lambda>f. extern (DatasetRead p) (ds_read E f 1)) w = (Inr (a, f'), w1)"
  shows "\<exists>h. rio_open E p (fs w p) = Inr h \<and> ds_read E h 1 = Inr a \<and> f' = ds_exit E h \<and> fs w1 = fs w"
proof (cases "rio_open E p (fs w p)")
  case (Inl e)
  with assms show ?thesis
    by (simp add: with_open_def next_do_def rasterio_open_def extern_def)
next
  case (Inr h)
  with assms show ?thesis
    by (cases "ds_read E h 1") (auto simp: with_open_def next_do_def rasterio_open_def extern_def)
qed

lemma read_loop_Inr:
  "read_loop E ps arrs f w = (Inr (arrs', f'), w1) \<Longrightarrow>
     \<exists>hs bs. list_all2 (\<lambda>p h. rio_open E p (fs w p) = Inr h) ps hs \<and>
             list_all2 (\<lambda>h a. ds_read E h 1 = Inr a) hs bs \<and>
             arrs' = arrs @ bs \<and>
             f' = last (f # map (\<lambda>h. Some (ds_exit E h)) hs) \<and>
             fs w1 = fs w"
proof (induction ps arbitrary: arrs f w)
  case Nil
  then show ?case by (simp add: ret_Inr)
next
  case (Cons p ps)
  from Cons.prems obtain a fc wm where
    wo: "with_open E p (\<lambda>f. extern (DatasetRead p) (ds_read E f 1)) w = (Inr (a, fc), wm)"
    and rest: "read_loop E ps (arrs @ [a]) (Some fc) wm = (Inr (arrs', f'), w1)"
    by (auto simp: next_do_Inr)
  from with_open_Inr[OF wo] obtain h where
    h: "rio_open E p (fs w p) = Inr h" "ds_read E h 1 = Inr a" "fc = ds_exit E h" "fs wm = fs w"
    by blast
  from Cons.IH[OF rest] obtain hs bs where
    ih: "list_all2 (\<lambda>p h. rio_open E p (fs wm p) = Inr h) ps hs"
        "list_all2 (\<lambda>h a. ds_read E h 1 = Inr a) hs bs"
        "arrs' = (arrs @ [a]) @ bs"
        "f' = last (Some fc # map (\<lambda>h. Some (ds_exit E h)) hs)"
        "fs w1 = fs wm"
    by blast
  show ?case
    using h ih by (intro exI[of _ "h # hs"] exI[of _ "a # bs"]) simp
qed

lemma stack_arrs_Inr:
  "stack_arrs E arrs w = (Inr data, w1) \<Longrightarrow>
     \<exists>a0 as. arrs = a0 # as \<and> np_array (np_cast E) arrs (band_dtype a0) = Inr data \<and> fs w1 = fs w"
  by (cases arrs) (auto simp: stack_arrs_def raise_Inr extern_Inr map_sum_id_Inr simp del: np_array.simps)

lemma cell_read_Inr:
  assumes "cell_read E w = (Inr (arrs, f, data), w1)"
  shows "\<exists>h0 h1 h2 a0 a1 a2.
     rio_open E ''/tmp/B01.jp2'' (fs w ''/tmp/B01.jp2'') = Inr h0 \<and> ds_read E h0 1 = Inr a0 \<and>
     rio_open E ''/tmp/B09.jp2'' (fs w ''/tmp/B09.jp2'') = Inr h1 \<and> ds_read E h1 1 = Inr a1 \<and>
     rio_open E ''/tmp/B10.jp2'' (fs w ''/tmp/B10.jp2'') = Inr h2 \<and> ds_read E h2 1 = Inr a2 \<and>
     arrs = [a0, a1, a2] \<and> f = Some (ds_exit E h2) \<and>
     np_array (np_cast E) [a0, a1, a2] (band_dtype a0) = Inr data \<and> fs w1 = fs w"
proof -
  from assms obtain wm where
    rl: "read_loop E jp2s [] None w = (Inr (arrs, f), wm)" and
    st: "stack_arrs E arrs wm = (Inr data, w1)"
    by (auto simp: cell_read_def next_do_Inr ret_Inr)
  from read_loop_Inr[OF rl] obtain hs bs where
    l: "list_all2 (\<lambda>p h. rio_open E p (fs w p) = Inr h) jp2s hs"
       "list_all2 (\<lambda>h a. ds_read E h 1 = Inr a) hs bs"
       "arrs = [] @ bs" "f = last (None # map (\<lambda>h. Some (ds_exit E h)) hs)" "fs wm = fs w"
    by blast
  from l(1) obtain h0 h1 h2 where hs: "hs = [h0, h1, h2]"
    and o: "rio_open E ''/tmp/B01.jp2'' (fs w ''/tmp/B01.jp2'') = Inr h0"
           "rio_open E ''/tmp/B09.jp2'' (fs w ''/tmp/B09.jp2'') = Inr h1"
           "rio_open E ''/tmp/B10.jp2'' (fs w ''/tmp/B10.jp2'') = Inr h2"
    by (auto simp: jp2s_def list_all2_Cons1)
  from l(2) hs obtain a0 a1 a2 where bs: "bs = [a0, a1, a2]"
    and r: "ds_read E h0 1 = Inr a0" "ds_read E h1 1 = Inr a1" "ds_read E h2 1 = Inr a2"
    by (auto simp: list_all2_Cons1)
  from stack_arrs_Inr[OF st] l(3) bs have
    "np_array (np_cast E) [a0, a1, a2] (band_dtype a0) = Inr data" "fs w1 = fs wm"
    by (auto simp del: np_array.simps)
  with o r l hs bs show ?thesis by simp
qed

section \<open>The trace of a run\<close>

lemma tracks_ret: "tracks (ret a) []"
  by (simp add: tracks_def ret_def raised_def exit_statuses_def)

lemma tracks_raise: "raised_by_python e \<Longrightarrow> tracks (raise e) cs"
  by (simp add: tracks_def raise_def raised_def exit_statuses_def)

lemma tracks_builtin: "(\<And>e. r = Inl e \<Longrightarrow> python_raises e) \<Longrightarrow> tracks (builtin r) []"
  by (cases r) (simp_all add: tracks_def builtin_def raised_def exit_statuses_def)

lemma tracks_extern: "tracks (extern c r) [c]"
  by (cases r) (simp_all add: tracks_def extern_def raised_def exit_statuses_def)

lemma raised_append: "raised (xs @ ys) = raised xs @ raised ys"
  by (simp add: raised_def)

lemma exit_statuses_append: "exit_statuses (xs @ ys) = exit_statuses xs @ exit_statuses ys"
  by (simp add: exit_statuses_def)


lemma tracksD:
  assumes "tracks m cs" and "m w = (r, w')"
  shows "\<exists>evs. trace w' = trace w @ evs \<and> exit_statuses evs = [] \<and>
        (case r of
           Inr a \<Rightarrow> map fst evs = cs \<and> raised evs = []
         | Inl e \<Rightarrow> prefix (map fst evs) cs \<and>
                    (raised evs = [e] \<or> raised evs = [] \<and> raised_by_python e))"
proof -
  from assms(1) have "\<exists>evs. trace (snd (m w)) = trace w @ evs \<and> exit_statuses evs = [] \<and>
        (case fst (m w) of
           Inr a \<Rightarrow> map fst evs = cs \<and> raised evs = []
         | Inl e \<Rightarrow> prefix (map fst evs) cs \<and>
                    (raised evs = [e] \<or> raised evs = [] \<and> raised_by_python e))"
    unfolding tracks_def by (rule spec)
  then show ?thesis by (simp add: assms(2))
qed

lemma tracks_next_do_returned:
  assumes m: "tracks m cs1" and k: "\<And>a w w'. m w = (Inr a, w') \<Longrightarrow> tracks (k a) cs2"
  shows "tracks (next_do m k) (cs1 @ cs2)"
  unfolding tracks_def
proof
  fix w
  obtain r w' where mw: "m w = (r, w')" by (cases "m w")
  from tracksD[OF m mw] obtain evs1 where e1: "trace w' = trace w @ evs1" "exit_statuses evs1 = []"
    and c1: "case r of Inr a \<Rightarrow> map fst evs1 = cs1 \<and> raised evs1 = []
         | Inl e \<Rightarrow> prefix (map fst evs1) cs1 \<and>
                    (raised evs1 = [e] \<or> raised evs1 = [] \<and> raised_by_python e)"
    by blast
  show "\<exists>evs. trace (snd (next_do m k w)) = trace w @ evs \<and> exit_statuses evs = [] \<and>
        (case fst (next_do m k w) of
           Inr a \<Rightarrow> map fst evs = cs1 @ cs2 \<and> raised evs = []
         | Inl e \<Rightarrow> prefix (map fst evs) (cs1 @ cs2) \<and>
                    (raised evs = [e] \<or> raised evs = [] \<and> raised_by_python e))"
  proof (cases r)
    case (Inl e)
    have nd: "next_do m k w = (Inl e, w')" using mw Inl by (simp add: next_do_def)
    from c1 Inl have "prefix (map fst evs1) cs1" "raised evs1 = [e] \<or> raised evs1 = [] \<and> raised_by_python e"
      by simp_all
    then show ?thesis using e1 unfolding nd
      by (intro exI[of _ evs1]) (simp add: prefix_prefix)
  next
    case (Inr a)
    obtain r2 w2 where kw: "k a w' = (r2, w2)" by (cases "k a w'")
    have ka: "tracks (k a) cs2" using mw Inr by (intro k[of w a w']) simp
    from tracksD[OF ka kw] obtain evs2 where e2: "trace w2 = trace w' @ evs2" "exit_statuses evs2 = []"
      and c2: "case r2 of Inr b \<Rightarrow> map fst evs2 = cs2 \<and> raised evs2 = []
         | Inl e \<Rightarrow> prefix (map fst evs2) cs2 \<and>
                    (raised evs2 = [e] \<or> raised evs2 = [] \<and> raised_by_python e)"
      by blast
    have nd: "next_do m k w = (r2, w2)" using mw Inr kw by (simp add: next_do_def)
    from c1 Inr have m1: "map fst evs1 = cs1" "raised evs1 = []" by simp_all
    show ?thesis
    proof (cases r2)
      case (Inl e)
      with c2 have "prefix (map fst evs2) cs2" "raised evs2 = [e] \<or> raised evs2 = [] \<and> raised_by_python e"
        by simp_all
      then show ?thesis using e1 e2 m1 Inl unfolding nd
        by (intro exI[of _ "evs1 @ evs2"]) (simp add: raised_append exit_statuses_append)
    next
      case (Inr b)
      with c2 have "map fst evs2 = cs2" "raised evs2 = []" by simp_all
      then show ?thesis using e1 e2 m1 Inr unfolding nd
        by (intro exI[of _ "evs1 @ evs2"]) (simp add: raised_append exit_statuses_append)
    qed
  qed
qed

lemma tracks_next_do:
  assumes "tracks m cs1" and "\<And>a. tracks (k a) cs2"
  shows "tracks (next_do m k) (cs1 @ cs2)"
  using assms by (intro tracks_next_do_returned)

lemma tracks_with_open:
  "tracks (with_open E p (\<lambda>f. extern (DatasetRead p) (r f))) [RasterioOpen p, DatasetRead p, DatasetExit p]"
  unfolding tracks_def
proof
  fix w :: "('a, 'b) world"
  show "\<exists>evs. trace (snd (with_open E p (\<lambda>f. extern (DatasetRead p) (r f)) w)) = trace w @ evs \<and> exit_statuses evs = [] \<and>
        (case fst (with_open E p (\<lambda>f. extern (DatasetRead p) (r f)) w) of
           Inr a \<Rightarrow> map fst evs = [RasterioOpen p, DatasetRead p, DatasetExit p] \<and> raised evs = []
         | Inl e \<Rightarrow> prefix (map fst evs) [RasterioOpen p, DatasetRead p, DatasetExit p] \<and>
                    (raised evs = [e] \<or> raised evs = [] \<and> raised_by_python e))"
  proof (cases "rio_open E p (fs w p)")
    case (Inl e)
    then show ?thesis
      by (simp add: with_open_def next_do_def rasterio_open_def extern_def raised_def exit_statuses_def)
  next
    case (Inr h)
    then show ?thesis
      by (cases "r h") (simp_all add: with_open_def next_do_def rasterio_open_def extern_def raised_def exit_statuses_def)
  qed
qed


lemma tracks_case_prod: "(\<And>x y. tracks (k x y) cs) \<Longrightarrow> tracks (case_prod k a) cs"
  by (cases a) simp

lemma tracks_name_f: "tracks (name_f (Some h)) []"
  by (simp add: name_f_def tracks_ret)

lemma map_sum_id_Inl: "map_sum id g r = Inl e \<longleftrightarrow> r = Inl e"
  by (cases r) simp_all

lemma unsigned_int_raises: "unsigned_int s ds = Inl e \<Longrightarrow> python_raises e"
  by (auto simp: unsigned_int_def split: if_splits)

lemma py_int_raises: "py_int s = Inl e \<Longrightarrow> python_raises e"
  by (auto simp: py_int_def Let_def map_sum_id_Inl split: if_splits dest: unsigned_int_raises)

lemma py_slice_from_raises: "py_slice_from v n = Inl e \<Longrightarrow> python_raises e"
  by (cases v) auto

lemma epsg_of_dict_raises: "epsg_of_dict d = Inl e \<Longrightarrow> python_raises e"
  by (auto simp: epsg_of_dict_def and_then_def py_getitem_def
      split: option.splits sum.splits dest: py_slice_from_raises py_int_raises)

lemma tracks_cell_import:
  "tracks (cell_import E) [Import ''rasterio'', Import ''geopyspark'', Import ''numpy'', Import ''pyspark'']"
proof -
  have "tracks (cell_import E)
          ([Import ''rasterio''] @ [Import ''geopyspark''] @ [Import ''numpy''] @ [Import ''pyspark''])"
    unfolding cell_import_def by (intro tracks_next_do tracks_extern)
  then show ?thesis by simp
qed

lemma tracks_cell_context: "tracks (cell_context E) [GeopysparkConf, SparkContextNew]"
proof -
  have "tracks (cell_context E) ([GeopysparkConf] @ [SparkContextNew] @ [])"
    unfolding cell_context_def by (intro tracks_next_do tracks_extern tracks_ret)
  then show ?thesis by simp
qed

lemma tracks_read_loop: "tracks (read_loop E ps arrs f) (concat (map loop_calls ps))"
proof (induction ps arbitrary: arrs f)
  case Nil
  show ?case by (simp add: tracks_ret)
next
  case (Cons p ps)
  have "tracks (read_loop E (p # ps) arrs f) (loop_calls p @ concat (map loop_calls ps))"
    unfolding read_loop.simps loop_calls_def[of p]
    by (intro tracks_next_do tracks_with_open tracks_case_prod Cons.IH)
  then show ?case by simp
qed

lemma tracks_stack_arrs: "arrs \<noteq> [] \<Longrightarrow> tracks (stack_arrs E arrs) [NpArray]"
  by (cases arrs) (simp_all add: stack_arrs_def tracks_extern)

lemma read_loop_nonempty:
  assumes "read_loop E jp2s [] None w = (Inr (arrs, f), w')"
  shows "arrs \<noteq> []"
proof -
  from read_loop_Inr[OF assms] obtain hs bs where
    l: "list_all2 (\<lambda>p h. rio_open E p (fs w p) = Inr h) jp2s hs"
       "list_all2 (\<lambda>h a. ds_read E h 1 = Inr a) hs bs" "arrs = [] @ bs"
    by blast
  from l(1,2) have "length bs = length jp2s" by (simp add: list_all2_lengthD)
  then show ?thesis using l(3) by (auto simp: jp2s_def)
qed

lemma tracks_cell_read: "tracks (cell_read E) (concat (map loop_calls jp2s) @ [NpArray])"
proof -
  have "tracks (cell_read E) (concat (map loop_calls jp2s) @ ([NpArray] @ []))"
    unfolding cell_read_def
  proof (rule tracks_next_do_returned[OF tracks_read_loop])
    fix a w w'
    assume r: "read_loop E jp2s [] None w = (Inr a, w')"
    obtain arrs f where a: "a = (arrs, f)" by (cases a)
    from r a have "arrs \<noteq> []" by (auto dest: read_loop_nonempty)
    then show "tracks (case a of (arrs, f) \<Rightarrow>
                 next_do (stack_arrs E arrs) (\<lambda>data. ret (arrs, f, data))) ([NpArray] @ [])"
      unfolding a prod.case by (intro tracks_next_do tracks_stack_arrs tracks_ret)
  qed
  then show ?thesis by simp
qed

lemma tracks_epsg_code: "tracks (epsg_code E line (Some h)) [DatasetCrsToDict line]"
proof -
  have "tracks (epsg_code E line (Some h)) ([] @ [DatasetCrsToDict line] @ [])"
    unfolding epsg_code_def
    by (intro tracks_next_do tracks_name_f tracks_extern tracks_builtin epsg_of_dict_raises)
  then show ?thesis by simp
qed

lemma tracks_cell_extent:
  "tracks (cell_extent E (Some h))
     [DatasetBounds, GpsExtent, DatasetCrsToDict 129, GpsProjectedExtent]"
proof -
  have "tracks (cell_extent E (Some h))
          ([] @ [DatasetBounds] @ [GpsExtent] @ [DatasetCrsToDict 129] @ [GpsProjectedExtent] @ [])"
    unfolding cell_extent_def
    by (intro tracks_next_do tracks_name_f tracks_extern tracks_case_prod tracks_epsg_code tracks_ret)
  then show ?thesis by simp
qed

lemma tracks_cell_crs: "tracks (cell_crs E (Some h)) [DatasetCrsToDict 149]"
proof -
  have "tracks (cell_crs E (Some h)) ([] @ [DatasetCrsToDict 149])"
    unfolding cell_crs_def by (intro tracks_next_do tracks_name_f tracks_extern)
  then show ?thesis by simp
qed

lemma tracks_cell_epsg: "tracks (cell_epsg E (Some h)) [DatasetCrsToDict 161]"
  by (simp add: cell_epsg_def tracks_epsg_code)

lemma tracks_cell_tile: "tracks (cell_tile E data (Some h)) [DatasetNodata, TileFromNumpyArray]"
proof -
  have "tracks (cell_tile E data (Some h)) ([] @ [DatasetNodata] @ [TileFromNumpyArray])"
    unfolding cell_tile_def by (intro tracks_next_do tracks_name_f tracks_extern)
  then show ?thesis by simp
qed

lemma tracks_cell_rdd: "tracks (cell_rdd E pysc pe tile) [Parallelize]"
  by (simp add: cell_rdd_def tracks_extern)

lemma tracks_cell_layer: "tracks (cell_layer E rdd) [RasterLayerFromNumpyRdd]"
  by (simp add: cell_layer_def tracks_extern)

text \<open>The cells after the reading cell, where \<open>f\<close> is bound.\<close>

lemma tracks_after_read:
  "tracks
     (next_do (cell_extent E (Some h)) (\<lambda>(extent, projected_extent).
      next_do (cell_crs E (Some h)) (\<lambda>_.
      next_do (cell_epsg E (Some h)) (\<lambda>_.
      next_do (cell_tile E data (Some h)) (\<lambda>tile.
      next_do (cell_rdd E pysc projected_extent tile) (\<lambda>rdd.
      next_do (cell_layer E rdd) (\<lambda>raster_layer.
      ret \<lparr>ns_conf = conf, ns_pysc = pysc, ns_arrs = arrs, ns_f = Some h, ns_data = data,
           ns_extent = extent, ns_projected_extent = projected_extent, ns_tile = tile,
           ns_rdd = rdd, ns_raster_layer = raster_layer\<rparr>)))))))
     ([DatasetBounds, GpsExtent, DatasetCrsToDict 129, GpsProjectedExtent]
      @ [DatasetCrsToDict 149]
      @ [DatasetCrsToDict 161]
      @ [DatasetNodata, TileFromNumpyArray]
      @ [Parallelize]
      @ [RasterLayerFromNumpyRdd]
      @ [])"
  by (intro tracks_next_do tracks_case_prod tracks_cell_extent tracks_cell_crs tracks_cell_epsg
      tracks_cell_tile tracks_cell_rdd tracks_cell_layer tracks_ret)

text \<open>The cells after the imports.\<close>

lemma tracks_after_import:
  "tracks
     (next_do (cell_context E) (\<lambda>(conf, pysc).
      next_do (cell_read E) (\<lambda>(arrs, f, data).
      next_do (cell_extent E f) (\<lambda>(extent, projected_extent).
      next_do (cell_crs E f) (\<lambda>_.
      next_do (cell_epsg E f) (\<lambda>_.
      next_do (cell_tile E data f) (\<lambda>tile.
      next_do (cell_rdd E pysc projected_extent tile) (\<lambda>rdd.
      next_do (cell_layer E rdd) (\<lambda>raster_layer.
      ret \<lparr>ns_conf = conf, ns_pysc = pysc, ns_arrs = arrs, ns_f = f, ns_data = data,
           ns_extent = extent, ns_projected_extent = projected_extent, ns_tile = tile,
           ns_rdd = rdd, ns_raster_layer = raster_layer\<rparr>)))))))))
     (drop 4 later_calls)"
proof -
  have "tracks
     (next_do (cell_context E) (\<lambda>(conf, pysc).
      next_do (cell_read E) (\<lambda>(arrs, f, data).
      next_do (cell_extent E f) (\<lambda>(extent, projected_extent).
      next_do (cell_crs E f) (\<lambda>_.
      next_do (cell_epsg E f) (\<lambda>_.
      next_do (cell_tile E data f) (\<lambda>tile.
      next_do (cell_rdd E pysc projected_extent tile) (\<lambda>rdd.
      next_do (cell_layer E rdd) (\<lambda>raster_layer.
      ret \<lparr>ns_conf = conf, ns_pysc = pysc, ns_arrs = arrs, ns_f = f, ns_data = data,
           ns_extent = extent, ns_projected_extent = projected_extent, ns_tile = tile,
           ns_rdd = rdd, ns_raster_layer = raster_layer\<rparr>)))))))))
     ([GeopysparkConf, SparkContextNew]
      @ (concat (map loop_calls jp2s) @ [NpArray])
      @ ([DatasetBounds, GpsExtent, DatasetCrsToDict 129, GpsProjectedExtent]
      @ [DatasetCrsToDict 149]
      @ [DatasetCrsToDict 161]
      @ [DatasetNodata, TileFromNumpyArray]
      @ [Parallelize]
      @ [RasterLayerFromNumpyRdd]
      @ []))"
  proof (rule tracks_next_do[OF tracks_cell_context], rule tracks_case_prod,
         rule tracks_next_do_returned[OF tracks_cell_read])
    fix conf pysc a w w'
    assume r: "cell_read E w = (Inr a, w')"
    obtain arrs f data where a: "a = (arrs, f, data)" by (cases a)
    from cell_read_Inr[OF r[unfolded a]] obtain h where f: "f = Some h" by blast
    show "tracks (case a of (arrs, f, data) \<Rightarrow>
      next_do (cell_extent E f) (\<lambda>(extent, projected_extent).
      next_do (cell_crs E f) (\<lambda>_.
      next_do (cell_epsg E f) (\<lambda>_.
      next_do (cell_tile E data f) (\<lambda>tile.
      next_do (cell_rdd E pysc projected_extent tile) (\<lambda>rdd.
      next_do (cell_layer E rdd) (\<lambda>raster_layer.
      ret \<lparr>ns_conf = conf, ns_pysc = pysc, ns_arrs = arrs, ns_f = f, ns_data = data,
           ns_extent = extent, ns_projected_extent = projected_extent, ns_tile = tile,
           ns_rdd = rdd, ns_raster_layer = raster_layer\<rparr>)))))))
     ([DatasetBounds, GpsExtent, DatasetCrsToDict 129, GpsProjectedExtent]
      @ [DatasetCrsToDict 149]
      @ [DatasetCrsToDict 161]
      @ [DatasetNodata, TileFromNumpyArray]
      @ [Parallelize]
      @ [RasterLayerFromNumpyRdd]
      @ [])"
      unfolding a f prod.case by (rule tracks_after_read)
  qed
  then show ?thesis by (simp add: later_calls_def)
qed

lemma tracks_after_download: "tracks (after_download E) later_calls"
proof -
  have "tracks (after_download E)
          ([Import ''rasterio'', Import ''geopyspark'', Import ''numpy'', Import ''pyspark'']
           @ drop 4 later_calls)"
    unfolding after_download_def
    by (intro tracks_next_do tracks_cell_import tracks_after_import)
  then show ?thesis by (simp add: later_calls_def)
qed

lemma cell_download_result:
  "\<exists>s1 s2 s3 files'. cell_download E w =
     (Inr (), \<lparr>fs = files', trace = trace w @
        [(Curl ''/tmp/B01.jp2'' B01_url, Exited s1), (Curl ''/tmp/B09.jp2'' B09_url, Exited s2),
         (Curl ''/tmp/B10.jp2'' B10_url, Exited s3)]\<rparr>)"
  by (simp add: cell_download_def next_do_def curl_o_def split: prod.splits)

text \<open>The shape of every run.\<close>

lemma run_shape:
  "\<exists>s1 s2 s3 evs.
     trace (snd (run E files)) =
        [(Curl ''/tmp/B01.jp2'' B01_url, Exited s1), (Curl ''/tmp/B09.jp2'' B09_url, Exited s2),
         (Curl ''/tmp/B10.jp2'' B10_url, Exited s3)] @ evs \<and>
     exit_statuses evs = [] \<and>
     (case fst (run E files) of
        Inr ns \<Rightarrow> map fst evs = later_calls \<and> raised evs = []
      | Inl e \<Rightarrow> prefix (map fst evs) later_calls \<and>
                 (raised evs = [e] \<or> raised evs = [] \<and> raised_by_python e))"
proof -
  obtain s1 s2 s3 files' where d: "cell_download E \<lparr>fs = files, trace = []\<rparr> =
     (Inr (), \<lparr>fs = files', trace = 
        [(Curl ''/tmp/B01.jp2'' B01_url, Exited s1), (Curl ''/tmp/B09.jp2'' B09_url, Exited s2),
         (Curl ''/tmp/B10.jp2'' B10_url, Exited s3)]\<rparr>)"
    using cell_download_result[of E "\<lparr>fs = files, trace = []\<rparr>"] by auto
  let ?w = "\<lparr>fs = files', trace = 
        [(Curl ''/tmp/B01.jp2'' B01_url, Exited s1), (Curl ''/tmp/B09.jp2'' B09_url, Exited s2),
         (Curl ''/tmp/B10.jp2'' B10_url, Exited s3)]\<rparr>"
  have r: "run E files = after_download E ?w"
    by (simp add: run_def notebook_def next_do_def d)
  obtain res w' where a: "after_download E ?w = (res, w')" by (cases "after_download E ?w")
  from tracksD[OF tracks_after_download a] obtain evs where
    "trace w' = trace ?w @ evs" "exit_statuses evs = []"
    "case res of
        Inr ns \<Rightarrow> map fst evs = later_calls \<and> raised evs = []
      | Inl e \<Rightarrow> prefix (map fst evs) later_calls \<and>
                 (raised evs = [e] \<or> raised evs = [] \<and> raised_by_python e)"
    by blast
  then show ?thesis unfolding r a by (intro exI[of _ s1] exI[of _ s2] exI[of _ s3] exI[of _ evs]) simp
qed

lemma calls_run:
  "\<exists>cs. calls (run E files) = download_calls @ cs \<and> prefix cs later_calls \<and>
        (\<not> isl (fst (run E files)) \<longrightarrow> cs = later_calls)"
proof -
  from run_shape[of E files] obtain s1 s2 s3 evs where
    t: "trace (snd (run E files)) =
        [(Curl ''/tmp/B01.jp2'' B01_url, Exited s1), (Curl ''/tmp/B09.jp2'' B09_url, Exited s2),
         (Curl ''/tmp/B10.jp2'' B10_url, Exited s3)] @ evs"
    and c: "case fst (run E files) of
        Inr ns \<Rightarrow> map fst evs = later_calls \<and> raised evs = []
      | Inl e \<Rightarrow> prefix (map fst evs) later_calls \<and>
                 (raised evs = [e] \<or> raised evs = [] \<and> raised_by_python e)"
    by blast
  have "calls (run E files) = download_calls @ map fst evs"
    by (simp add: calls_def t download_calls_def)
  moreover have "prefix (map fst evs) later_calls"
    using c by (cases "fst (run E files)") simp_all
  moreover have "\<not> isl (fst (run E files)) \<longrightarrow> map fst evs = later_calls"
    using c by (cases "fst (run E files)") simp_all
  ultimately show ?thesis by blast
qed

lemma prefix_notebook_calls: "prefix (calls (run E files)) notebook_calls"
  using calls_run[of E files] by (auto simp: notebook_calls_def)

lemma complete_run_calls: "\<not> isl (fst (run E files)) \<Longrightarrow> calls (run E files) = notebook_calls"
  using calls_run[of E files] by (auto simp: notebook_calls_def)

lemma notebook_calls_unfolded:
  "notebook_calls =
     [Curl ''/tmp/B01.jp2'' B01_url, Curl ''/tmp/B09.jp2'' B09_url, Curl ''/tmp/B10.jp2'' B10_url,
      Import ''rasterio'', Import ''geopyspark'', Import ''numpy'', Import ''pyspark'',
      GeopysparkConf, SparkContextNew,
      RasterioOpen ''/tmp/B01.jp2'', DatasetRead ''/tmp/B01.jp2'', DatasetExit ''/tmp/B01.jp2'',
      RasterioOpen ''/tmp/B09.jp2'', DatasetRead ''/tmp/B09.jp2'', DatasetExit ''/tmp/B09.jp2'',
      RasterioOpen ''/tmp/B10.jp2'', DatasetRead ''/tmp/B10.jp2'', DatasetExit ''/tmp/B10.jp2'',
      NpArray,
      DatasetBounds, GpsExtent, DatasetCrsToDict 129, GpsProjectedExtent,
      DatasetCrsToDict 149, DatasetCrsToDict 161,
      DatasetNodata, TileFromNumpyArray,
      Parallelize,
      RasterLayerFromNumpyRdd]"
  by (simp add: notebook_calls_def download_calls_def later_calls_def loop_calls_def jp2s_def)

lemma steps_notebook_calls:
  "steps notebook_calls =
     replicate 3 Download @ replicate 9 Decode @ [Stack] @ replicate 8 Wrap @
     [ConstructRDD, ConstructLayer]"
  by (simp add: notebook_calls_unfolded steps_def List.map_filter_simps numeral_eq_Suc)

lemma sorted_steps_notebook_calls: "sorted (map step_index (steps notebook_calls))"
  by (simp add: steps_notebook_calls numeral_eq_Suc)

lemma distinct_notebook_calls: "distinct notebook_calls"
  by (simp add: notebook_calls_unfolded B01_url_def B09_url_def B10_url_def)

lemma steps_append: "steps (xs @ ys) = steps xs @ steps ys"
  by (simp add: steps_def List.map_filter_def)

lemma step_of_in_steps: "c \<in> set cs \<Longrightarrow> step_of c = Some s \<Longrightarrow> s \<in> set (steps cs)"
  by (force simp: steps_def List.map_filter_def)

lemma earlier_steps_complete:
  assumes "xs @ zs = notebook_calls" "c \<in> set xs" "c' \<in> set notebook_calls"
    "step_of c = Some s" "step_of c' = Some s'" "step_index s' < step_index s"
  shows "c' \<in> set xs"
proof (rule ccontr)
  assume "c' \<notin> set xs"
  with assms(1,3) have "c' \<in> set zs" by (metis Un_iff set_append)
  then have s': "s' \<in> set (steps zs)" using assms(5) by (rule step_of_in_steps)
  have s: "s \<in> set (steps xs)" using assms(2,4) by (rule step_of_in_steps)
  have "sorted (map step_index (steps xs) @ map step_index (steps zs))"
    using sorted_steps_notebook_calls assms(1) by (metis steps_append map_append)
  then have "step_index s \<le> step_index s'"
    using s s' by (simp add: sorted_append)
  with assms(6) show False by simp
qed

section \<open>Runs of the reference interpretation\<close>

lemmas run_defs =
  run_def notebook_def after_download_def cell_download_def cell_import_def
  cell_context_def cell_read_def cell_extent_def cell_crs_def cell_epsg_def cell_tile_def
  cell_rdd_def cell_layer_def next_do_def curl_o_def extern_def ret_def raise_def builtin_def
  with_open_def rasterio_open_def stack_arrs_def name_f_def epsg_code_def jp2s_def
  ref_ext_def ref_curl_def tile_file_def B01_url_def B09_url_def B10_url_def
  epsg_of_dict_def and_then_def py_getitem_def py_int_def unsigned_int_def strip_def
  is_space_def is_digit_def digit_val_def digits_nat_def converted_rows_def convert_def
  int_message_def

lemma run_bucket:
  "fst (run (ref_ext bucket) Map.empty) =
     Inr \<lparr>ns_conf = SparkConf ''local[*]'' ''sentinel-ingest-example'',
          ns_pysc = SparkCtx (SparkConf ''local[*]'' ''sentinel-ingest-example''),
          ns_arrs =
            [\<lparr>band_dtype = UInt16, band_shape = [1, 2], band_rows = [[1190, 1210]]\<rparr>,
             \<lparr>band_dtype = UInt16, band_shape = [1, 2], band_rows = [[310, 298]]\<rparr>,
             \<lparr>band_dtype = UInt16, band_shape = [1, 2], band_rows = [[12, 9]]\<rparr>],
          ns_f = Some (Dataset ''/tmp/B10.jp2''
              \<lparr>jp2_band = \<lparr>band_dtype = UInt16, band_shape = [1, 2], band_rows = [[12, 9]]\<rparr>,
                 jp2_bounds = (499980, 4690200, 609780, 4800000),
                 jp2_crs = [(''init'', PStr ''epsg:32632'')],
                 jp2_nodata = None\<rparr> False),
          ns_data = \<lparr>stack_dtype = UInt16, stack_shape = [3, 1, 2],
              stack_bands = [[[1190, 1210]], [[310, 298]], [[12, 9]]]\<rparr>,
          ns_extent = ExtentObj 499980 4690200 609780 4800000,
          ns_projected_extent =
            ProjectedExtentObj (ExtentObj 499980 4690200 609780 4800000) 32632,
          ns_tile = TileObj \<lparr>stack_dtype = UInt16, stack_shape = [3, 1, 2],
               stack_bands = [[[1190, 1210]], [[310, 298]], [[12, 9]]]\<rparr> None,
          ns_rdd = RDD (SparkCtx (SparkConf ''local[*]'' ''sentinel-ingest-example''))
            [(ProjectedExtentObj (ExtentObj 499980 4690200 609780 4800000) 32632,
              TileObj \<lparr>stack_dtype = UInt16, stack_shape = [3, 1, 2],
                  stack_bands = [[[1190, 1210]], [[310, 298]], [[12, 9]]]\<rparr> None)],
          ns_raster_layer = RasterLayer SPATIAL
            (RDD (SparkCtx (SparkConf ''local[*]'' ''sentinel-ingest-example''))
              [(ProjectedExtentObj (ExtentObj 499980 4690200 609780 4800000) 32632,
                TileObj \<lparr>stack_dtype = UInt16, stack_shape = [3, 1, 2],
                    stack_bands = [[[1190, 1210]], [[310, 298]], [[12, 9]]]\<rparr> None)])\<rparr>"
  by (simp add: run_defs bucket_def)


lemma downloads_append: "downloads (xs @ ys) = downloads xs @ downloads ys"
  by (simp add: downloads_def)

lemma downloads_later_calls: "downloads later_calls = []"
  by (simp add: downloads_def later_calls_def loop_calls_def jp2s_def)

lemma downloads_prefix_later: "prefix cs later_calls \<Longrightarrow> downloads cs = []"
  using downloads_later_calls by (metis prefixE downloads_append append_is_Nil_conv)

lemma downloads_run:
  "downloads (calls (run E files)) =
     [(''/tmp/B01.jp2'', B01_url), (''/tmp/B09.jp2'', B09_url), (''/tmp/B10.jp2'', B10_url)]"
proof -
  from calls_run[of E files] obtain cs where
    cs: "calls (run E files) = download_calls @ cs" "prefix cs later_calls" by blast
  have "downloads download_calls =
     [(''/tmp/B01.jp2'', B01_url), (''/tmp/B09.jp2'', B09_url), (''/tmp/B10.jp2'', B10_url)]"
    by (simp add: downloads_def download_calls_def)
  then show ?thesis using cs by (simp add: downloads_append downloads_prefix_later)
qed

lemma hosts: 
  "url_host B01_url = Some ''sentinel-s2-l1c.s3.amazonaws.com''"
  "url_host B09_url = Some ''sentinel-s2-l1c.s3.amazonaws.com''"
  "url_host B10_url = Some ''sentinel-s2-l1c.s3.amazonaws.com''"
  by (simp_all add: url_host_def B01_url_def B09_url_def B10_url_def)

lemma libraries_append: "libraries (xs @ ys) = libraries xs \<union> libraries ys"
  by (simp add: libraries_def List.map_filter_def)

lemma libraries_notebook_calls:
  "libraries notebook_calls = {''rasterio'', ''geopyspark'', ''numpy'', ''pyspark''}"
  by (auto simp: notebook_calls_unfolded libraries_def List.map_filter_simps)

lemma libraries_called:
  "libraries (filter (\<lambda>c. import_of c = []) notebook_calls) =
     {''rasterio'', ''geopyspark'', ''numpy'', ''pyspark''}"
  by (auto simp: notebook_calls_unfolded libraries_def List.map_filter_simps)

lemma libraries_run_subset:
  "libraries (calls (run E files)) \<subseteq> {''rasterio'', ''geopyspark'', ''numpy'', ''pyspark''}"
proof -
  from prefix_notebook_calls[of E files] obtain zs where "notebook_calls = calls (run E files) @ zs"
    by (metis prefixE)
  then have "libraries notebook_calls = libraries (calls (run E files)) \<union> libraries zs"
    by (metis libraries_append)
  then show ?thesis using libraries_notebook_calls by blast
qed

lemma imported_append: "imported (xs @ ys) = imported xs @ imported ys"
  by (simp add: imported_def)

lemma imported_notebook_calls:
  "imported notebook_calls = [''rasterio'', ''geopyspark'', ''numpy'', ''pyspark'']"
  by (simp add: notebook_calls_unfolded imported_def)

lemma imported_run_prefix:
  "prefix (imported (calls (run E files))) [''rasterio'', ''geopyspark'', ''numpy'', ''pyspark'']"
proof -
  from prefix_notebook_calls[of E files] obtain zs where "notebook_calls = calls (run E files) @ zs"
    by (metis prefixE)
  then have "imported notebook_calls = imported (calls (run E files)) @ imported zs"
    by (metis imported_append)
  then show ?thesis unfolding imported_notebook_calls by (metis prefixI)
qed

lemma calls_of_step_notebook_calls:
  "calls_of_step Download notebook_calls = download_calls"
  "calls_of_step Decode notebook_calls = concat (map loop_calls jp2s)"
  "calls_of_step Stack notebook_calls = [NpArray]"
  "calls_of_step Wrap notebook_calls =
     [DatasetBounds, GpsExtent, DatasetCrsToDict 129, GpsProjectedExtent,
      DatasetCrsToDict 149, DatasetCrsToDict 161, DatasetNodata, TileFromNumpyArray]"
  "calls_of_step ConstructRDD notebook_calls = [Parallelize]"
  "calls_of_step ConstructLayer notebook_calls = [RasterLayerFromNumpyRdd]"
  by (simp_all add: notebook_calls_unfolded calls_of_step_def download_calls_def loop_calls_def jp2s_def)



lemma take_download_calls: "take 3 (calls (run E files)) = download_calls"
  using calls_run[of E files] by (auto simp: download_calls_def)




lemma run_stale:
  "\<not> isl (fst (run (ref_ext offline) stale_tmp))"
  "exit_statuses (trace (snd (run (ref_ext offline) stale_tmp))) = [6, 6, 6]"
  "raised (trace (snd (run (ref_ext offline) stale_tmp))) = []"
  by (simp_all add: run_defs offline_def stale_tmp_def exit_statuses_def raised_def)

section \<open>What a complete run has computed\<close>

lemma epsg_code_Inr:
  "epsg_code E line f w = (Inr epsg, w1) \<Longrightarrow>
     \<exists>h d. f = Some h \<and> ds_crs_to_dict E h = Inr d \<and>
       epsg_of_dict d = Inr epsg \<and> fs w1 = fs w"
  by (auto simp: epsg_code_def next_do_Inr name_f_Inr extern_Inr builtin_Inr)

lemma cell_extent_Inr:
  "cell_extent E f w = (Inr (extent, pe), w1) \<Longrightarrow>
     \<exists>h left bottom right top d epsg.
       f = Some h \<and> ds_bounds E h = Inr (left, bottom, right, top) \<and>
       gps_Extent E left bottom right top = Inr extent \<and>
       ds_crs_to_dict E h = Inr d \<and> epsg_of_dict d = Inr epsg \<and>
       gps_ProjectedExtent E extent epsg = Inr pe \<and> fs w1 = fs w"
  by (auto simp: cell_extent_def next_do_Inr name_f_Inr extern_Inr ret_Inr dest!: epsg_code_Inr)

lemma cell_crs_Inr: "cell_crs E f w = (Inr d, w1) \<Longrightarrow> fs w1 = fs w"
  by (auto simp: cell_crs_def next_do_Inr name_f_Inr extern_Inr)

lemma cell_epsg_Inr: "cell_epsg E f w = (Inr d, w1) \<Longrightarrow> fs w1 = fs w"
  by (auto simp: cell_epsg_def dest!: epsg_code_Inr)

lemma cell_tile_Inr:
  "cell_tile E data f w = (Inr tile, w1) \<Longrightarrow>
     \<exists>h nodata. f = Some h \<and> ds_nodata E h = Inr nodata \<and>
        Tile_from_numpy_array E data nodata = Inr tile \<and> fs w1 = fs w"
  by (auto simp: cell_tile_def next_do_Inr name_f_Inr extern_Inr)

lemma cell_rdd_Inr:
  "cell_rdd E pysc pe tile w = (Inr rdd, w1) \<Longrightarrow>
     parallelize E pysc [(pe, tile)] = Inr rdd \<and> fs w1 = fs w"
  by (auto simp: cell_rdd_def extern_Inr)

lemma cell_layer_Inr:
  "cell_layer E rdd w = (Inr layer, w1) \<Longrightarrow> from_numpy_rdd E SPATIAL rdd = Inr layer \<and> fs w1 = fs w"
  by (auto simp: cell_layer_def extern_Inr)

lemma run_chain:
  assumes "fst (run E files) = Inr ns"
  obtains wA wB wC wD wE wF wG wH wI wJ u dct e2 where
    "cell_download E \<lparr>fs = files, trace = []\<rparr> = (Inr (), wA)"
    "cell_import E wA = (Inr u, wB)"
    "cell_context E wB = (Inr (ns_conf ns, ns_pysc ns), wC)"
    "cell_read E wC = (Inr (ns_arrs ns, ns_f ns, ns_data ns), wD)"
    "cell_extent E (ns_f ns) wD = (Inr (ns_extent ns, ns_projected_extent ns), wE)"
    "cell_crs E (ns_f ns) wE = (Inr dct, wF)"
    "cell_epsg E (ns_f ns) wF = (Inr e2, wG)"
    "cell_tile E (ns_data ns) (ns_f ns) wG = (Inr (ns_tile ns), wH)"
    "cell_rdd E (ns_pysc ns) (ns_projected_extent ns) (ns_tile ns) wH = (Inr (ns_rdd ns), wI)"
    "cell_layer E (ns_rdd ns) wI = (Inr (ns_raster_layer ns), wJ)"
proof -
  from assms obtain wJ where "notebook E \<lparr>fs = files, trace = []\<rparr> = (Inr ns, wJ)"
    by (cases "run E files") (simp add: run_def)
  then obtain wA where d: "cell_download E \<lparr>fs = files, trace = []\<rparr> = (Inr (), wA)"
    and a: "after_download E wA = (Inr ns, wJ)"
    by (auto simp: notebook_def next_do_Inr)
  from a obtain u wB where i: "cell_import E wA = (Inr u, wB)"
    and a1: "next_do (cell_context E) (\<lambda>(conf, pysc).
     next_do (cell_read E) (\<lambda>(arrs, f, data).
     next_do (cell_extent E f) (\<lambda>(extent, projected_extent).
     next_do (cell_crs E f) (\<lambda>_.
     next_do (cell_epsg E f) (\<lambda>_.
     next_do (cell_tile E data f) (\<lambda>tile.
     next_do (cell_rdd E pysc projected_extent tile) (\<lambda>rdd.
     next_do (cell_layer E rdd) (\<lambda>raster_layer.
     ret \<lparr>ns_conf = conf, ns_pysc = pysc, ns_arrs = arrs, ns_f = f, ns_data = data,
          ns_extent = extent, ns_projected_extent = projected_extent, ns_tile = tile,
          ns_rdd = rdd, ns_raster_layer = raster_layer\<rparr>)))))))) wB = (Inr ns, wJ)"
    unfolding after_download_def next_do_Inr[of "cell_import E"] by blast
  from a1 obtain conf pysc wC where c: "cell_context E wB = (Inr (conf, pysc), wC)"
    and a2: "next_do (cell_read E) (\<lambda>(arrs, f, data).
     next_do (cell_extent E f) (\<lambda>(extent, projected_extent).
     next_do (cell_crs E f) (\<lambda>_.
     next_do (cell_epsg E f) (\<lambda>_.
     next_do (cell_tile E data f) (\<lambda>tile.
     next_do (cell_rdd E pysc projected_extent tile) (\<lambda>rdd.
     next_do (cell_layer E rdd) (\<lambda>raster_layer.
     ret \<lparr>ns_conf = conf, ns_pysc = pysc, ns_arrs = arrs, ns_f = f, ns_data = data,
          ns_extent = extent, ns_projected_extent = projected_extent, ns_tile = tile,
          ns_rdd = rdd, ns_raster_layer = raster_layer\<rparr>))))))) wC = (Inr ns, wJ)"
    unfolding next_do_Inr[of "cell_context E"] by auto
  from a2 obtain arrs f data wD where r: "cell_read E wC = (Inr (arrs, f, data), wD)"
    and a3: "next_do (cell_extent E f) (\<lambda>(extent, projected_extent).
     next_do (cell_crs E f) (\<lambda>_.
     next_do (cell_epsg E f) (\<lambda>_.
     next_do (cell_tile E data f) (\<lambda>tile.
     next_do (cell_rdd E pysc projected_extent tile) (\<lambda>rdd.
     next_do (cell_layer E rdd) (\<lambda>raster_layer.
     ret \<lparr>ns_conf = conf, ns_pysc = pysc, ns_arrs = arrs, ns_f = f, ns_data = data,
          ns_extent = extent, ns_projected_extent = projected_extent, ns_tile = tile,
          ns_rdd = rdd, ns_raster_layer = raster_layer\<rparr>)))))) wD = (Inr ns, wJ)"
    unfolding next_do_Inr[of "cell_read E"] by auto
  from a3 obtain extent pe wE where x: "cell_extent E f wD = (Inr (extent, pe), wE)"
    and a4: "next_do (cell_crs E f) (\<lambda>_.
     next_do (cell_epsg E f) (\<lambda>_.
     next_do (cell_tile E data f) (\<lambda>tile.
     next_do (cell_rdd E pysc pe tile) (\<lambda>rdd.
     next_do (cell_layer E rdd) (\<lambda>raster_layer.
     ret \<lparr>ns_conf = conf, ns_pysc = pysc, ns_arrs = arrs, ns_f = f, ns_data = data,
          ns_extent = extent, ns_projected_extent = pe, ns_tile = tile,
          ns_rdd = rdd, ns_raster_layer = raster_layer\<rparr>))))) wE = (Inr ns, wJ)"
    unfolding next_do_Inr[of "cell_extent E f"] by auto
  from a4 obtain dct wF e2 wG tile wH rdd wI layer where
    rest: "cell_crs E f wE = (Inr dct, wF)" "cell_epsg E f wF = (Inr e2, wG)"
      "cell_tile E data f wG = (Inr tile, wH)" "cell_rdd E pysc pe tile wH = (Inr rdd, wI)"
      "cell_layer E rdd wI = (Inr layer, wJ)"
    and ns: "ns = \<lparr>ns_conf = conf, ns_pysc = pysc, ns_arrs = arrs, ns_f = f, ns_data = data,
          ns_extent = extent, ns_projected_extent = pe, ns_tile = tile,
          ns_rdd = rdd, ns_raster_layer = layer\<rparr>"
    unfolding next_do_Inr ret_Inr by auto
  show thesis
    using that[of wA u wB wC wD wE dct wF e2 wG wH wI wJ] d i c r x rest unfolding ns by simp
qed

lemma complete_run:
  assumes "fst (run E files) = Inr ns"
  obtains h0 h1 h2 a0 a1 a2 left bottom right top d epsg nodata where
    "rio_open E ''/tmp/B01.jp2'' (downloaded E files ''/tmp/B01.jp2'') = Inr h0"
    "ds_read E h0 1 = Inr a0"
    "rio_open E ''/tmp/B09.jp2'' (downloaded E files ''/tmp/B09.jp2'') = Inr h1"
    "ds_read E h1 1 = Inr a1"
    "rio_open E ''/tmp/B10.jp2'' (downloaded E files ''/tmp/B10.jp2'') = Inr h2"
    "ds_read E h2 1 = Inr a2"
    "ns_arrs ns = [a0, a1, a2]"
    "ns_f ns = Some (ds_exit E h2)"
    "np_array (np_cast E) [a0, a1, a2] (band_dtype a0) = Inr (ns_data ns)"
    "geopyspark_conf E ''local[*]'' ''sentinel-ingest-example'' = Inr (ns_conf ns)"
    "SparkContext E (ns_conf ns) = Inr (ns_pysc ns)"
    "ds_bounds E (ds_exit E h2) = Inr (left, bottom, right, top)"
    "gps_Extent E left bottom right top = Inr (ns_extent ns)"
    "ds_crs_to_dict E (ds_exit E h2) = Inr d"
    "epsg_of_dict d = Inr epsg"
    "gps_ProjectedExtent E (ns_extent ns) epsg = Inr (ns_projected_extent ns)"
    "ds_nodata E (ds_exit E h2) = Inr nodata"
    "Tile_from_numpy_array E (ns_data ns) nodata = Inr (ns_tile ns)"
    "parallelize E (ns_pysc ns) [(ns_projected_extent ns, ns_tile ns)] = Inr (ns_rdd ns)"
    "from_numpy_rdd E SPATIAL (ns_rdd ns) = Inr (ns_raster_layer ns)"
proof -
  from assms obtain wA wB wC wD wE wF wG wH wI wJ u dct e2 where
    ch: "cell_download E \<lparr>fs = files, trace = []\<rparr> = (Inr (), wA)"
    "cell_import E wA = (Inr u, wB)"
    "cell_context E wB = (Inr (ns_conf ns, ns_pysc ns), wC)"
    "cell_read E wC = (Inr (ns_arrs ns, ns_f ns, ns_data ns), wD)"
    "cell_extent E (ns_f ns) wD = (Inr (ns_extent ns, ns_projected_extent ns), wE)"
    "cell_crs E (ns_f ns) wE = (Inr dct, wF)"
    "cell_epsg E (ns_f ns) wF = (Inr e2, wG)"
    "cell_tile E (ns_data ns) (ns_f ns) wG = (Inr (ns_tile ns), wH)"
    "cell_rdd E (ns_pysc ns) (ns_projected_extent ns) (ns_tile ns) wH = (Inr (ns_rdd ns), wI)"
    "cell_layer E (ns_rdd ns) wI = (Inr (ns_raster_layer ns), wJ)"
    by (rule run_chain)
  have fA: "fs wA = downloaded E files"
    using cell_download_fs[of E "\<lparr>fs = files, trace = []\<rparr>"] ch(1) by simp
  have fC: "fs wC = downloaded E files"
    using cell_import_Inr[OF ch(2)] cell_context_Inr[OF ch(3)] fA by simp
  from cell_read_Inr[OF ch(4)] obtain h0 h1 h2 a0 a1 a2 where
    rd: "rio_open E ''/tmp/B01.jp2'' (fs wC ''/tmp/B01.jp2'') = Inr h0" "ds_read E h0 1 = Inr a0"
     "rio_open E ''/tmp/B09.jp2'' (fs wC ''/tmp/B09.jp2'') = Inr h1" "ds_read E h1 1 = Inr a1"
     "rio_open E ''/tmp/B10.jp2'' (fs wC ''/tmp/B10.jp2'') = Inr h2" "ds_read E h2 1 = Inr a2"
     "ns_arrs ns = [a0, a1, a2]" "ns_f ns = Some (ds_exit E h2)"
     "np_array (np_cast E) [a0, a1, a2] (band_dtype a0) = Inr (ns_data ns)"
    by blast
  from cell_extent_Inr[OF ch(5)] rd(8) obtain left bottom right top d epsg where
    ex: "ds_bounds E (ds_exit E h2) = Inr (left, bottom, right, top)"
       "gps_Extent E left bottom right top = Inr (ns_extent ns)"
       "ds_crs_to_dict E (ds_exit E h2) = Inr d" "epsg_of_dict d = Inr epsg"
       "gps_ProjectedExtent E (ns_extent ns) epsg = Inr (ns_projected_extent ns)"
    by auto
  from cell_tile_Inr[OF ch(8)] rd(8) obtain nodata where
    tl: "ds_nodata E (ds_exit E h2) = Inr nodata"
        "Tile_from_numpy_array E (ns_data ns) nodata = Inr (ns_tile ns)"
    by auto
  have c: "geopyspark_conf E ''local[*]'' ''sentinel-ingest-example'' = Inr (ns_conf ns)"
     "SparkContext E (ns_conf ns) = Inr (ns_pysc ns)"
    using cell_context_Inr[OF ch(3)] by simp_all
  have r: "parallelize E (ns_pysc ns) [(ns_projected_extent ns, ns_tile ns)] = Inr (ns_rdd ns)"
    using cell_rdd_Inr[OF ch(9)] by simp
  have l: "from_numpy_rdd E SPATIAL (ns_rdd ns) = Inr (ns_raster_layer ns)"
    using cell_layer_Inr[OF ch(10)] by simp
  have o: "rio_open E ''/tmp/B01.jp2'' (downloaded E files ''/tmp/B01.jp2'') = Inr h0"
    "rio_open E ''/tmp/B09.jp2'' (downloaded E files ''/tmp/B09.jp2'') = Inr h1"
    "rio_open E ''/tmp/B10.jp2'' (downloaded E files ''/tmp/B10.jp2'') = Inr h2"
    using rd(1,3,5) unfolding fC by simp_all
  show thesis
    by (rule that[OF o(1) rd(2) o(2) rd(4) o(3) rd(6) rd(7) rd(8) rd(9) c ex tl r l])
qed

section \<open>Parsing the EPSG code\<close>

lemma foldl_digits:
  "foldl (\<lambda>a c. 10 * a + digit_val c) acc ds = acc * 10 ^ length ds + decimal_value ds"
  by (induction ds arbitrary: acc) (simp_all add: algebra_simps)

lemma digits_nat_decimal: "digits_nat ds = decimal_value ds"
  by (simp add: digits_nat_def foldl_digits)

lemma digit_not_space: "is_digit c \<Longrightarrow> \<not> is_space c"
  by (auto simp: is_digit_def is_space_def)

lemma digit_not_sign: "is_digit c \<Longrightarrow> c \<noteq> CHR ''-'' \<and> c \<noteq> CHR ''+''"
  by (auto simp: is_digit_def)

lemma strip_digits:
  assumes "ds \<noteq> []" "list_all is_digit ds"
  shows "strip ds = ds"
proof -
  have "is_digit (hd ds)" "is_digit (last ds)"
    using assms by (simp_all add: list_all_iff)
  then have h: "\<not> is_space (hd ds)" and l: "\<not> is_space (hd (rev ds))"
    using assms(1) by (simp_all add: digit_not_space hd_rev)
  have "dropWhile is_space ds = ds" using h by (simp add: dropWhile_eq_self_iff)
  moreover have "dropWhile is_space (rev ds) = rev ds" using l by (simp add: dropWhile_eq_self_iff)
  ultimately show ?thesis by (simp add: strip_def)
qed

lemma py_int_digits:
  assumes "ds \<noteq> []" "list_all is_digit ds"
  shows "py_int ds = Inr (int (decimal_value ds))"
proof -
  have "is_digit (hd ds)" using assms by (simp add: list_all_iff)
  then have "hd ds \<noteq> CHR ''-''" "hd ds \<noteq> CHR ''+''" using digit_not_sign by blast+
  then show ?thesis
    using assms by (simp add: py_int_def strip_digits unsigned_int_def digits_nat_decimal)
qed

lemma epsg_of_dict_epsg:
  assumes "d ''init'' = Some (PStr (''epsg:'' @ ds))" "ds \<noteq> []" "list_all is_digit ds"
  shows "epsg_of_dict d = Inr (int (decimal_value ds))"
  using assms by (simp add: epsg_of_dict_def py_getitem_def and_then_def py_int_digits)

section \<open>The stacked array\<close>

lemma np_array_Inr:
  "np_array cast (a # as) d = Inr data \<longleftrightarrow>
     list_all (\<lambda>a'. band_shape a' = band_shape a) as \<and>
     data = \<lparr>stack_dtype = d, stack_shape = length (a # as) # band_shape a,
             stack_bands = map (converted_rows cast d) (a # as)\<rparr>"
  by auto

lemma converted_rows_same: "band_dtype a = d \<Longrightarrow> converted_rows cast d a = band_rows a"
  by (simp add: converted_rows_def convert_def map_idI)

lemma converted_rows_other:
  "band_dtype a \<noteq> d \<Longrightarrow> converted_rows cast d a = map (map (cast (band_dtype a) d)) (band_rows a)"
  by (simp add: converted_rows_def convert_def)

lemma decoded_Inr: "rio_open E p (files p) = Inr h \<Longrightarrow> ds_read E h 1 = Inr a \<Longrightarrow> decoded E files p = Inr a"
  by (simp add: decoded_def and_then_def)

lemma complete_run_stack:
  assumes "fst (run E files) = Inr ns"
  obtains a0 a1 a2 where
    "decoded E (downloaded E files) ''/tmp/B01.jp2'' = Inr a0"
    "decoded E (downloaded E files) ''/tmp/B09.jp2'' = Inr a1"
    "decoded E (downloaded E files) ''/tmp/B10.jp2'' = Inr a2"
    "ns_arrs ns = [a0, a1, a2]"
    "ns_data ns = \<lparr>stack_dtype = band_dtype a0, stack_shape = 3 # band_shape a0,
       stack_bands = [converted_rows (np_cast E) (band_dtype a0) a0,
                      converted_rows (np_cast E) (band_dtype a0) a1,
                      converted_rows (np_cast E) (band_dtype a0) a2]\<rparr>"
    "band_shape a1 = band_shape a0" "band_shape a2 = band_shape a0"
proof -
  from assms obtain h0 h1 h2 a0 a1 a2 left bottom right top d epsg nodata where
    r: "rio_open E ''/tmp/B01.jp2'' (downloaded E files ''/tmp/B01.jp2'') = Inr h0"
    "ds_read E h0 1 = Inr a0"
    "rio_open E ''/tmp/B09.jp2'' (downloaded E files ''/tmp/B09.jp2'') = Inr h1"
    "ds_read E h1 1 = Inr a1"
    "rio_open E ''/tmp/B10.jp2'' (downloaded E files ''/tmp/B10.jp2'') = Inr h2"
    "ds_read E h2 1 = Inr a2"
    "ns_arrs ns = [a0, a1, a2]"
    "ns_f ns = Some (ds_exit E h2)"
    "np_array (np_cast E) [a0, a1, a2] (band_dtype a0) = Inr (ns_data ns)"
    "geopyspark_conf E ''local[*]'' ''sentinel-ingest-example'' = Inr (ns_conf ns)"
    "SparkContext E (ns_conf ns) = Inr (ns_pysc ns)"
    "ds_bounds E (ds_exit E h2) = Inr (left, bottom, right, top)"
    "gps_Extent E left bottom right top = Inr (ns_extent ns)"
    "ds_crs_to_dict E (ds_exit E h2) = Inr d"
    "epsg_of_dict d = Inr epsg"
    "gps_ProjectedExtent E (ns_extent ns) epsg = Inr (ns_projected_extent ns)"
    "ds_nodata E (ds_exit E h2) = Inr nodata"
    "Tile_from_numpy_array E (ns_data ns) nodata = Inr (ns_tile ns)"
    "parallelize E (ns_pysc ns) [(ns_projected_extent ns, ns_tile ns)] = Inr (ns_rdd ns)"
    "from_numpy_rdd E SPATIAL (ns_rdd ns) = Inr (ns_raster_layer ns)"
    by (rule complete_run)
  from r(9) have s: "band_shape a1 = band_shape a0" "band_shape a2 = band_shape a0"
    "ns_data ns = \<lparr>stack_dtype = band_dtype a0, stack_shape = 3 # band_shape a0,
       stack_bands = [converted_rows (np_cast E) (band_dtype a0) a0,
                      converted_rows (np_cast E) (band_dtype a0) a1,
                      converted_rows (np_cast E) (band_dtype a0) a2]\<rparr>"
    unfolding np_array_Inr by simp_all
  show thesis
    by (rule that[OF decoded_Inr[where files = "downloaded E files", OF r(1,2)]
        decoded_Inr[where files = "downloaded E files", OF r(3,4)]
        decoded_Inr[where files = "downloaded E files", OF r(5,6)] r(7) s(3) s(1) s(2)])
qed

lemma run_mixed:
  "fst (run (ref_ext mixed_bucket) Map.empty) =
     Inr \<lparr>ns_conf = SparkConf ''local[*]'' ''sentinel-ingest-example'',
          ns_pysc = SparkCtx (SparkConf ''local[*]'' ''sentinel-ingest-example''),
          ns_arrs =
            [\<lparr>band_dtype = UInt8, band_shape = [1, 2], band_rows = [[17, 23]]\<rparr>,
             \<lparr>band_dtype = UInt16, band_shape = [1, 2], band_rows = [[300, 4]]\<rparr>,
             \<lparr>band_dtype = UInt16, band_shape = [1, 2], band_rows = [[12, 9]]\<rparr>],
          ns_f = Some B10_handle,
          ns_data = \<lparr>stack_dtype = UInt8, stack_shape = [3, 1, 2],
              stack_bands = [[[17, 23]], [[44, 4]], [[12, 9]]]\<rparr>,
          ns_extent = ExtentObj 499980 4690200 609780 4800000,
          ns_projected_extent =
            ProjectedExtentObj (ExtentObj 499980 4690200 609780 4800000) 32632,
          ns_tile = TileObj \<lparr>stack_dtype = UInt8, stack_shape = [3, 1, 2],
               stack_bands = [[[17, 23]], [[44, 4]], [[12, 9]]]\<rparr> None,
          ns_rdd = RDD (SparkCtx (SparkConf ''local[*]'' ''sentinel-ingest-example''))
            [(ProjectedExtentObj (ExtentObj 499980 4690200 609780 4800000) 32632,
              TileObj \<lparr>stack_dtype = UInt8, stack_shape = [3, 1, 2],
                  stack_bands = [[[17, 23]], [[44, 4]], [[12, 9]]]\<rparr> None)],
          ns_raster_layer = RasterLayer SPATIAL
            (RDD (SparkCtx (SparkConf ''local[*]'' ''sentinel-ingest-example''))
              [(ProjectedExtentObj (ExtentObj 499980 4690200 609780 4800000) 32632,
                TileObj \<lparr>stack_dtype = UInt8, stack_shape = [3, 1, 2],
                    stack_bands = [[[17, 23]], [[44, 4]], [[12, 9]]]\<rparr> None)])\<rparr>"
  by (simp add: run_defs mixed_bucket_def B10_handle_def)

lemma decoded_mixed:
  "decoded (ref_ext mixed_bucket) (downloaded (ref_ext mixed_bucket) Map.empty) ''/tmp/B01.jp2'' =
     Inr \<lparr>band_dtype = UInt8, band_shape = [1, 2], band_rows = [[17, 23]]\<rparr>"
  "decoded (ref_ext mixed_bucket) (downloaded (ref_ext mixed_bucket) Map.empty) ''/tmp/B09.jp2'' =
     Inr \<lparr>band_dtype = UInt16, band_shape = [1, 2], band_rows = [[300, 4]]\<rparr>"
  by (simp_all add: decoded_def downloaded_def and_then_def ref_ext_def ref_curl_def
      mixed_bucket_def tile_file_def B01_url_def B09_url_def B10_url_def)

lemma cell_read_mixed:
  "fst (cell_read (ref_ext mixed_bucket)
      \<lparr>fs = downloaded (ref_ext mixed_bucket) Map.empty, trace = []\<rparr>) =
     Inr ([\<lparr>band_dtype = UInt8, band_shape = [1, 2], band_rows = [[17, 23]]\<rparr>,
           \<lparr>band_dtype = UInt16, band_shape = [1, 2], band_rows = [[300, 4]]\<rparr>,
           \<lparr>band_dtype = UInt16, band_shape = [1, 2], band_rows = [[12, 9]]\<rparr>],
          Some B10_handle,
          \<lparr>stack_dtype = UInt8, stack_shape = [3, 1, 2],
             stack_bands = [[[17, 23]], [[44, 4]], [[12, 9]]]\<rparr>)"
  by (simp add: run_defs downloaded_def mixed_bucket_def B10_handle_def)

section \<open>Metadata of other handles\<close>

lemma next_do_cong_fst: "m = m' \<Longrightarrow> (\<And>a. k a = k' a) \<Longrightarrow> next_do m k = next_do m' k'"
  by (simp add: fun_eq_iff next_do_def split: prod.splits sum.splits)

lemma prims_metadata:
  "curl_o (E\<lparr>ds_bounds := b, ds_crs_to_dict := c, ds_nodata := n\<rparr>) = curl_o E"
  "rasterio_open (E\<lparr>ds_bounds := b, ds_crs_to_dict := c, ds_nodata := n\<rparr>) = rasterio_open E"
  by (simp_all add: fun_eq_iff curl_o_def rasterio_open_def)

lemma read_loop_metadata:
  "read_loop (E\<lparr>ds_bounds := b, ds_crs_to_dict := c, ds_nodata := n\<rparr>) ps arrs f =
   read_loop E ps arrs f"
  by (induction ps arbitrary: arrs f) (simp_all add: with_open_def prims_metadata)

lemma cells_metadata:
  "cell_download (E\<lparr>ds_bounds := b, ds_crs_to_dict := c, ds_nodata := n\<rparr>) = cell_download E"
  "cell_import (E\<lparr>ds_bounds := b, ds_crs_to_dict := c, ds_nodata := n\<rparr>) = cell_import E"
  "cell_context (E\<lparr>ds_bounds := b, ds_crs_to_dict := c, ds_nodata := n\<rparr>) = cell_context E"
  "cell_read (E\<lparr>ds_bounds := b, ds_crs_to_dict := c, ds_nodata := n\<rparr>) = cell_read E"
  "cell_rdd (E\<lparr>ds_bounds := b, ds_crs_to_dict := c, ds_nodata := n\<rparr>) = cell_rdd E"
  "cell_layer (E\<lparr>ds_bounds := b, ds_crs_to_dict := c, ds_nodata := n\<rparr>) = cell_layer E"
  by (simp_all add: fun_eq_iff cell_download_def prims_metadata cell_import_def cell_context_def
      cell_read_def read_loop_metadata stack_arrs_def cell_rdd_def cell_layer_def
      cong: list.case_cong)

lemma next_do_ret: "next_do (ret a) k = k a"
  by (simp add: fun_eq_iff next_do_def ret_def)

lemma metadata_cells:
  assumes "b h = ds_bounds E h" "c h = ds_crs_to_dict E h" "n h = ds_nodata E h"
  shows
    "cell_extent (E\<lparr>ds_bounds := b, ds_crs_to_dict := c, ds_nodata := n\<rparr>) (Some h) =
       cell_extent E (Some h)"
    "cell_crs (E\<lparr>ds_bounds := b, ds_crs_to_dict := c, ds_nodata := n\<rparr>) (Some h) =
       cell_crs E (Some h)"
    "cell_epsg (E\<lparr>ds_bounds := b, ds_crs_to_dict := c, ds_nodata := n\<rparr>) (Some h) =
       cell_epsg E (Some h)"
    "cell_tile (E\<lparr>ds_bounds := b, ds_crs_to_dict := c, ds_nodata := n\<rparr>) data (Some h) =
       cell_tile E data (Some h)"
  using assms
  by (simp_all add: cell_extent_def cell_crs_def cell_epsg_def cell_tile_def
      epsg_code_def name_f_def next_do_ret)

lemma run_of_chain:
  assumes "cell_download E \<lparr>fs = files, trace = []\<rparr> = (Inr (), wA)"
    "cell_import E wA = (Inr u, wB)"
    "cell_context E wB = (Inr (ns_conf ns, ns_pysc ns), wC)"
    "cell_read E wC = (Inr (ns_arrs ns, ns_f ns, ns_data ns), wD)"
    "cell_extent E (ns_f ns) wD = (Inr (ns_extent ns, ns_projected_extent ns), wE)"
    "cell_crs E (ns_f ns) wE = (Inr dct, wF)"
    "cell_epsg E (ns_f ns) wF = (Inr e2, wG)"
    "cell_tile E (ns_data ns) (ns_f ns) wG = (Inr (ns_tile ns), wH)"
    "cell_rdd E (ns_pysc ns) (ns_projected_extent ns) (ns_tile ns) wH = (Inr (ns_rdd ns), wI)"
    "cell_layer E (ns_rdd ns) wI = (Inr (ns_raster_layer ns), wJ)"
  shows "run E files = (Inr ns, wJ)"
  by (simp add: run_def notebook_def after_download_def next_do_def ret_def assms)

lemma metadata_not_consulted:
  assumes ok: "fst (run E files) = Inr ns" and f: "ns_f ns = Some h"
    and m: "b h = ds_bounds E h" "c h = ds_crs_to_dict E h" "n h = ds_nodata E h"
  shows "run (E\<lparr>ds_bounds := b, ds_crs_to_dict := c, ds_nodata := n\<rparr>) files = run E files"
proof -
  let ?E = "E\<lparr>ds_bounds := b, ds_crs_to_dict := c, ds_nodata := n\<rparr>"
  from ok obtain wA wB wC wD wE wF wG wH wI wJ u dct e2 where
    ch: "cell_download E \<lparr>fs = files, trace = []\<rparr> = (Inr (), wA)"
    "cell_import E wA = (Inr u, wB)"
    "cell_context E wB = (Inr (ns_conf ns, ns_pysc ns), wC)"
    "cell_read E wC = (Inr (ns_arrs ns, ns_f ns, ns_data ns), wD)"
    "cell_extent E (ns_f ns) wD = (Inr (ns_extent ns, ns_projected_extent ns), wE)"
    "cell_crs E (ns_f ns) wE = (Inr dct, wF)"
    "cell_epsg E (ns_f ns) wF = (Inr e2, wG)"
    "cell_tile E (ns_data ns) (ns_f ns) wG = (Inr (ns_tile ns), wH)"
    "cell_rdd E (ns_pysc ns) (ns_projected_extent ns) (ns_tile ns) wH = (Inr (ns_rdd ns), wI)"
    "cell_layer E (ns_rdd ns) wI = (Inr (ns_raster_layer ns), wJ)"
    by (rule run_chain)
  have "run E files = (Inr ns, wJ)"
    by (rule run_of_chain[OF ch])
  moreover have "run ?E files = (Inr ns, wJ)"
    by (rule run_of_chain[of ?E files wA u wB ns wC wD wE dct wF e2 wG wH wI wJ])
       (simp_all add: cells_metadata
          metadata_cells[where E = E and b = b and c = c and n = n and h = h, OF m]
          ch[unfolded f] f)
  ultimately show ?thesis by simp
qed

lemma reference_fields:
  "rio_open (ref_ext s) = ref_open" "ds_exit (ref_ext s) = ref_exit"
  "ds_bounds (ref_ext s) = ref_bounds" "ds_crs_to_dict (ref_ext s) = ref_crs_to_dict"
  "ds_nodata (ref_ext s) = ref_nodata"
  by (simp_all add: ref_ext_def)

lemma downloaded_mixed_B10:
  "downloaded (ref_ext mixed_bucket) Map.empty ''/tmp/B10.jp2'' =
     Some (tile_file UInt16 [12, 9] ''epsg:32632'')"
  by (simp add: downloaded_def ref_ext_def ref_curl_def mixed_bucket_def
      B01_url_def B09_url_def B10_url_def)

section \<open>The notebook as a function of the three files\<close>

lemma function_of_filesI:
  assumes "\<And>w1 w2. map (fs w1) jp2s = map (fs w2) jp2s \<Longrightarrow>
     fst (m w1) = fst (m w2) \<and> map (fs (snd (m w1))) jp2s = map (fs (snd (m w2))) jp2s"
  shows "function_of_files m"
  using assms unfolding function_of_files_def by blast

lemma function_of_filesD:
  assumes "function_of_files m" "map (fs w1) jp2s = map (fs w2) jp2s"
  shows "fst (m w1) = fst (m w2)" "map (fs (snd (m w1))) jp2s = map (fs (snd (m w2))) jp2s"
  using assms unfolding function_of_files_def by blast+

lemma fof_ret: "function_of_files (ret a)"
  by (rule function_of_filesI) (simp add: ret_def)

lemma fof_raise: "function_of_files (raise e)"
  by (rule function_of_filesI) (simp add: raise_def)

lemma fof_builtin: "function_of_files (builtin r)"
  by (rule function_of_filesI) (simp add: builtin_def)

lemma fof_extern: "function_of_files (extern c r)"
  by (rule function_of_filesI) (cases r, simp_all add: extern_def)

lemma fof_next_do:
  assumes m: "function_of_files m" and k: "\<And>a. function_of_files (k a)"
  shows "function_of_files (next_do m k)"
proof (rule function_of_filesI, goal_cases)
  case eq: (1 w1 w2)
  obtain r1 v1 where m1: "m w1 = (r1, v1)" by (cases "m w1")
  obtain r2 v2 where m2: "m w2 = (r2, v2)" by (cases "m w2")
  from function_of_filesD[OF m eq] m1 m2 have r: "r1 = r2" and v: "map (fs v1) jp2s = map (fs v2) jp2s"
    by simp_all
  show ?case
  proof (cases r1)
    case (Inl e)
    then show ?thesis using m1 m2 r v by (simp add: next_do_def)
  next
    case (Inr a)
    then have "next_do m k w1 = k a v1" "next_do m k w2 = k a v2"
      using m1 m2 r by (simp_all add: next_do_def)
    then show ?thesis using function_of_filesD[OF k v] by simp
  qed
qed

lemma fof_case_prod: "(\<And>x y. function_of_files (k x y)) \<Longrightarrow> function_of_files (case_prod k a)"
  by (cases a) simp

lemma fof_name_f: "function_of_files (name_f f)"
  by (cases f) (simp_all add: name_f_def fof_raise fof_ret)

lemma fof_rasterio_open:
  assumes "p \<in> set jp2s"
  shows "function_of_files (rasterio_open E p)"
proof (rule function_of_filesI, goal_cases)
  case eq: (1 w1 w2)
  then have "fs w1 p = fs w2 p" using assms by (simp add: map_eq_conv)
  then show ?case
    using eq by (cases "rio_open E p (fs w2 p)") (simp_all add: rasterio_open_def extern_def)
qed

lemma fof_with_exit:
  assumes "function_of_files body"
  shows "function_of_files (\<lambda>w. case body w of
           (r, w') \<Rightarrow> (map_sum id g r, w'\<lparr>trace := trace w' @ [ev]\<rparr>))"
proof (rule function_of_filesI, goal_cases)
  case eq: (1 w1 w2)
  from function_of_filesD[OF assms eq]
  show ?case
    by (simp add: split_beta)
qed

lemma fof_with_open:
  assumes "p \<in> set jp2s" "\<And>f. function_of_files (body f)"
  shows "function_of_files (with_open E p body)"
  unfolding with_open_def
  by (intro fof_next_do fof_rasterio_open fof_with_exit assms)

lemma fof_read_loop:
  "set ps \<subseteq> set jp2s \<Longrightarrow> function_of_files (read_loop E ps arrs f)"
proof (induction ps arbitrary: arrs f)
  case Nil
  show ?case by (simp add: fof_ret)
next
  case (Cons p ps)
  then have p: "p \<in> set jp2s" and ps: "set ps \<subseteq> set jp2s" by simp_all
  show ?case
    unfolding read_loop.simps
    by (intro fof_next_do fof_with_open fof_extern fof_case_prod Cons.IH p ps)
qed

lemma fof_stack_arrs: "function_of_files (stack_arrs E arrs)"
  by (cases arrs) (simp_all add: stack_arrs_def fof_raise fof_extern)

lemma fof_after_download: "function_of_files (after_download E)"
  unfolding after_download_def cell_import_def cell_context_def cell_read_def cell_extent_def
    cell_crs_def cell_epsg_def epsg_code_def cell_tile_def cell_rdd_def cell_layer_def
  by (intro fof_next_do fof_case_prod fof_extern fof_ret fof_builtin fof_name_f fof_read_loop
      fof_stack_arrs subset_refl)

lemma prims_curl:
  "rasterio_open (E\<lparr>curl := c\<rparr>) = rasterio_open E"
  by (simp add: fun_eq_iff rasterio_open_def)

lemma read_loop_curl: "read_loop (E\<lparr>curl := c\<rparr>) ps arrs f = read_loop E ps arrs f"
  by (induction ps arbitrary: arrs f) (simp_all add: with_open_def prims_curl)

lemma after_download_curl: "after_download (E\<lparr>curl := c\<rparr>) = after_download E"
  by (simp add: after_download_def cell_import_def cell_context_def cell_read_def
      cell_extent_def cell_crs_def cell_epsg_def epsg_code_def cell_tile_def cell_rdd_def
      cell_layer_def read_loop_curl stack_arrs_def
      cong: list.case_cong prod.case_cong option.case_cong)

lemma run_after_download:
  "fst (run E files) = fst (after_download E (snd (cell_download E \<lparr>fs = files, trace = []\<rparr>)))"
proof -
  obtain s1 s2 s3 files' where "cell_download E \<lparr>fs = files, trace = []\<rparr> =
     (Inr (), \<lparr>fs = files', trace = trace \<lparr>fs = files, trace = []\<rparr> @
        [(Curl ''/tmp/B01.jp2'' B01_url, Exited s1), (Curl ''/tmp/B09.jp2'' B09_url, Exited s2),
         (Curl ''/tmp/B10.jp2'' B10_url, Exited s3)]\<rparr>)"
    using cell_download_result[of E "\<lparr>fs = files, trace = []\<rparr>"] by blast
  then show ?thesis by (simp add: run_def notebook_def next_do_def)
qed

lemma offline_is_bucket: "ref_ext offline = (ref_ext bucket)\<lparr>curl := ref_curl offline\<rparr>"
  by (simp add: ref_ext_def)

lemma same_downloaded:
  "map (downloaded (ref_ext bucket) Map.empty) jp2s = map (downloaded (ref_ext offline) stale_tmp) jp2s"
  by (simp add: downloaded_def ref_ext_def ref_curl_def bucket_def offline_def stale_tmp_def
      jp2s_def B01_url_def B09_url_def B10_url_def)

section \<open>The exit statuses of the downloads\<close>























section \<open>The claims\<close>

text \<open>
  C1. In every run the calls are made in the order of the notebook's text: the trace is a
  prefix of \<open>notebook_calls\<close>, and the whole of it when the run completes. Its steps
  come in the order download, decode, stack, wrap, RDD, layer; no call site is executed
  twice; and when a call of some step is made, every call of every earlier step has been
  made.
\<close>

theorem pipeline_order:
  "prefix (calls (run E files)) notebook_calls \<and>
   (\<not> isl (fst (run E files)) \<longrightarrow> calls (run E files) = notebook_calls) \<and>
   steps notebook_calls =
     replicate 3 Download @ replicate 9 Decode @ [Stack] @ replicate 8 Wrap @
     [ConstructRDD, ConstructLayer] \<and>
   sorted (map step_index (steps (calls (run E files)))) \<and>
   distinct (calls (run E files)) \<and>
   (\<forall>c \<in> set (calls (run E files)). \<forall>c' \<in> set notebook_calls. \<forall>s s'.
      step_of c = Some s \<and> step_of c' = Some s' \<and> step_index s' < step_index s
      \<longrightarrow> c' \<in> set (calls (run E files)))"
proof -
  let ?cs = "calls (run E files)"
  from prefix_notebook_calls[of E files] obtain zs where zs: "?cs @ zs = notebook_calls"
    by (metis prefixE)
  have "sorted (map step_index (steps ?cs) @ map step_index (steps zs))"
    using sorted_steps_notebook_calls zs by (metis steps_append map_append)
  then have srt: "sorted (map step_index (steps ?cs))" by (simp add: sorted_append)
  have dst: "distinct ?cs" using distinct_notebook_calls zs by (metis distinct_append)
  show ?thesis
    using prefix_notebook_calls[of E files] complete_run_calls[of E files] steps_notebook_calls
      srt dst earlier_steps_complete[OF zs]
    by blast
qed

theorem pipeline_order_witness:
  "\<not> isl (fst (run (ref_ext bucket) Map.empty)) \<and>
   calls (run (ref_ext bucket) Map.empty) = notebook_calls \<and>
   Parallelize \<in> set (calls (run (ref_ext bucket) Map.empty)) \<and>
   step_of Parallelize = Some ConstructRDD \<and> step_of NpArray = Some Stack \<and>
   step_index Stack < step_index ConstructRDD \<and>
   NpArray \<in> set (calls (run (ref_ext bucket) Map.empty))"
  using pipeline_order[of "ref_ext bucket" Map.empty]
  by (simp add: run_bucket notebook_calls_unfolded)




text \<open>
  C3, as amended. Every run downloads exactly the three URLs, all on the host
  \<open>sentinel-s2-l1c.s3.amazonaws.com\<close>. A library is named by the module that the import
  cell imports it as. Every run imports an initial part of the list \<open>rasterio\<close>,
  \<open>geopyspark\<close>, \<open>numpy\<close>, \<open>pyspark\<close> and nothing else, and every library that it imports
  or calls into is one of these four; a complete run imports exactly this list and
  calls into all four.
\<close>

theorem external_surface:
  "downloads (calls (run E files)) =
     [(''/tmp/B01.jp2'', B01_url), (''/tmp/B09.jp2'', B09_url), (''/tmp/B10.jp2'', B10_url)] \<and>
   map (\<lambda>d. url_host (snd d)) (downloads (calls (run E files))) =
     replicate 3 (Some ''sentinel-s2-l1c.s3.amazonaws.com'') \<and>
   prefix (imported (calls (run E files))) [''rasterio'', ''geopyspark'', ''numpy'', ''pyspark''] \<and>
   libraries (calls (run E files)) \<subseteq> {''rasterio'', ''geopyspark'', ''numpy'', ''pyspark''} \<and>
   (\<not> isl (fst (run E files)) \<longrightarrow>
      imported (calls (run E files)) = [''rasterio'', ''geopyspark'', ''numpy'', ''pyspark''] \<and>
      libraries (calls (run E files)) = {''rasterio'', ''geopyspark'', ''numpy'', ''pyspark''} \<and>
      libraries (filter (\<lambda>c. import_of c = []) (calls (run E files))) =
        {''rasterio'', ''geopyspark'', ''numpy'', ''pyspark''})"
proof -
  have d: "map (\<lambda>d. url_host (snd d)) (downloads (calls (run E files))) =
     replicate 3 (Some ''sentinel-s2-l1c.s3.amazonaws.com'')"
    by (simp add: downloads_run hosts numeral_eq_Suc)
  have c: "imported (calls (run E files)) = [''rasterio'', ''geopyspark'', ''numpy'', ''pyspark''] \<and>
      libraries (calls (run E files)) = {''rasterio'', ''geopyspark'', ''numpy'', ''pyspark''} \<and>
      libraries (filter (\<lambda>c. import_of c = []) (calls (run E files))) =
        {''rasterio'', ''geopyspark'', ''numpy'', ''pyspark''}"
    if "\<not> isl (fst (run E files))"
    unfolding complete_run_calls[OF that]
    by (intro conjI imported_notebook_calls libraries_notebook_calls libraries_called)
  show ?thesis
    using downloads_run[of E files] d imported_run_prefix[of E files]
      libraries_run_subset[of E files] c
    by blast
qed

theorem external_surface_witness:
  "\<not> isl (fst (run (ref_ext bucket) Map.empty)) \<and>
   imported (calls (run (ref_ext bucket) Map.empty)) =
     [''rasterio'', ''geopyspark'', ''numpy'', ''pyspark''] \<and>
   libraries (calls (run (ref_ext bucket) Map.empty)) =
     {''rasterio'', ''geopyspark'', ''numpy'', ''pyspark''}"
  using external_surface[of "ref_ext bucket" Map.empty] by (simp add: run_bucket)

text \<open>
  C3, as stated, fails: a complete run calls into four libraries, \<open>numpy\<close> and \<open>pyspark\<close>
  among them, not two.
\<close>

theorem four_libraries_called:
  "''numpy'' \<in> libraries (calls (run (ref_ext bucket) Map.empty)) \<and>
   ''pyspark'' \<in> libraries (calls (run (ref_ext bucket) Map.empty)) \<and>
   card (libraries (calls (run (ref_ext bucket) Map.empty))) = 4"
proof -
  have "calls (run (ref_ext bucket) Map.empty) = notebook_calls"
    by (rule complete_run_calls) (simp add: run_bucket)
  then show ?thesis by (simp add: libraries_notebook_calls)
qed

text \<open>
  C4. In a complete run the RDD is built by one call of \<open>parallelize\<close> on a list of one
  pair: the key is the projected extent built from the extent (itself built from the
  decoder's bounds) and the EPSG code read from the decoder's CRS dictionary, the value is
  the tile built from the stacked array and the decoder's nodata value. The layer is
  built by one call of \<open>from_numpy_rdd\<close> on that RDD with the layer type \<open>SPATIAL\<close>.
\<close>

theorem rdd_of_one_pair:
  assumes "fst (run E files) = Inr ns"
  shows "\<exists>h left bottom right top d epsg nodata a0 as.
     ns_f ns = Some h \<and>
     ds_bounds E h = Inr (left, bottom, right, top) \<and>
     gps_Extent E left bottom right top = Inr (ns_extent ns) \<and>
     ds_crs_to_dict E h = Inr d \<and> epsg_of_dict d = Inr epsg \<and>
     gps_ProjectedExtent E (ns_extent ns) epsg = Inr (ns_projected_extent ns) \<and>
     ns_arrs ns = a0 # as \<and>
     np_array (np_cast E) (ns_arrs ns) (band_dtype a0) = Inr (ns_data ns) \<and>
     ds_nodata E h = Inr nodata \<and>
     Tile_from_numpy_array E (ns_data ns) nodata = Inr (ns_tile ns) \<and>
     parallelize E (ns_pysc ns) [(ns_projected_extent ns, ns_tile ns)] = Inr (ns_rdd ns) \<and>
     from_numpy_rdd E SPATIAL (ns_rdd ns) = Inr (ns_raster_layer ns) \<and>
     calls_of_step ConstructRDD (calls (run E files)) = [Parallelize] \<and>
     calls_of_step ConstructLayer (calls (run E files)) = [RasterLayerFromNumpyRdd]"
proof -
  have "\<not> isl (fst (run E files))" using assms by simp
  then have c: "calls (run E files) = notebook_calls" by (rule complete_run_calls)
  from assms obtain h0 h1 h2 a0 a1 a2 left bottom right top d epsg nodata where
    r: "rio_open E ''/tmp/B01.jp2'' (downloaded E files ''/tmp/B01.jp2'') = Inr h0"
    "ds_read E h0 1 = Inr a0"
    "rio_open E ''/tmp/B09.jp2'' (downloaded E files ''/tmp/B09.jp2'') = Inr h1"
    "ds_read E h1 1 = Inr a1"
    "rio_open E ''/tmp/B10.jp2'' (downloaded E files ''/tmp/B10.jp2'') = Inr h2"
    "ds_read E h2 1 = Inr a2"
    "ns_arrs ns = [a0, a1, a2]"
    "ns_f ns = Some (ds_exit E h2)"
    "np_array (np_cast E) [a0, a1, a2] (band_dtype a0) = Inr (ns_data ns)"
    "geopyspark_conf E ''local[*]'' ''sentinel-ingest-example'' = Inr (ns_conf ns)"
    "SparkContext E (ns_conf ns) = Inr (ns_pysc ns)"
    "ds_bounds E (ds_exit E h2) = Inr (left, bottom, right, top)"
    "gps_Extent E left bottom right top = Inr (ns_extent ns)"
    "ds_crs_to_dict E (ds_exit E h2) = Inr d"
    "epsg_of_dict d = Inr epsg"
    "gps_ProjectedExtent E (ns_extent ns) epsg = Inr (ns_projected_extent ns)"
    "ds_nodata E (ds_exit E h2) = Inr nodata"
    "Tile_from_numpy_array E (ns_data ns) nodata = Inr (ns_tile ns)"
    "parallelize E (ns_pysc ns) [(ns_projected_extent ns, ns_tile ns)] = Inr (ns_rdd ns)"
    "from_numpy_rdd E SPATIAL (ns_rdd ns) = Inr (ns_raster_layer ns)"
    by (rule complete_run)
  have s: "np_array (np_cast E) (ns_arrs ns) (band_dtype a0) = Inr (ns_data ns)"
    using r(9) unfolding r(7) .
  have k: "calls_of_step ConstructRDD (calls (run E files)) = [Parallelize]"
    "calls_of_step ConstructLayer (calls (run E files)) = [RasterLayerFromNumpyRdd]"
    unfolding c by (simp_all add: calls_of_step_notebook_calls)
  show ?thesis
    apply (rule exI[of _ "ds_exit E h2"])
    apply (rule exI[of _ left], rule exI[of _ bottom], rule exI[of _ right], rule exI[of _ top])
    apply (rule exI[of _ d], rule exI[of _ epsg], rule exI[of _ nodata])
    apply (rule exI[of _ a0], rule exI[of _ "[a1, a2]"])
    apply (intro conjI)
    apply (rule r s k)+
    done
qed

theorem rdd_of_one_pair_witness:
  "ns_rdd (projr (fst (run (ref_ext bucket) Map.empty))) =
     RDD (SparkCtx (SparkConf ''local[*]'' ''sentinel-ingest-example''))
       [(ProjectedExtentObj (ExtentObj 499980 4690200 609780 4800000) 32632,
         TileObj \<lparr>stack_dtype = UInt16, stack_shape = [3, 1, 2],
                  stack_bands = [[[1190, 1210]], [[310, 298]], [[12, 9]]]\<rparr> None)] \<and>
   ns_raster_layer (projr (fst (run (ref_ext bucket) Map.empty))) =
     RasterLayer SPATIAL (ns_rdd (projr (fst (run (ref_ext bucket) Map.empty))))"
  using rdd_of_one_pair[OF run_bucket] by (simp add: run_bucket)

text \<open>
  C5. In a complete run the extent is built from the four components of the bounds the
  decoder reports, in their order, and when the entry \<open>'init'\<close> of the decoder's CRS
  dictionary is \<open>epsg:\<close> followed by one or more decimal digits, the EPSG code given to
  the projected extent is the decimal value of those digits.
\<close>

theorem extent_and_epsg_from_metadata:
  assumes "fst (run E files) = Inr ns"
  shows "\<exists>h left bottom right top d.
     ns_f ns = Some h \<and>
     ds_bounds E h = Inr (left, bottom, right, top) \<and>
     gps_Extent E left bottom right top = Inr (ns_extent ns) \<and>
     ds_crs_to_dict E h = Inr d \<and>
     (\<forall>ds. d ''init'' = Some (PStr (''epsg:'' @ ds)) \<and> ds \<noteq> [] \<and> list_all is_digit ds \<longrightarrow>
        epsg_of_dict d = Inr (int (decimal_value ds)) \<and>
        gps_ProjectedExtent E (ns_extent ns) (int (decimal_value ds)) =
          Inr (ns_projected_extent ns))"
proof -
  from assms obtain h0 h1 h2 a0 a1 a2 left bottom right top d epsg nodata where
    r: "rio_open E ''/tmp/B01.jp2'' (downloaded E files ''/tmp/B01.jp2'') = Inr h0"
    "ds_read E h0 1 = Inr a0"
    "rio_open E ''/tmp/B09.jp2'' (downloaded E files ''/tmp/B09.jp2'') = Inr h1"
    "ds_read E h1 1 = Inr a1"
    "rio_open E ''/tmp/B10.jp2'' (downloaded E files ''/tmp/B10.jp2'') = Inr h2"
    "ds_read E h2 1 = Inr a2"
    "ns_arrs ns = [a0, a1, a2]"
    "ns_f ns = Some (ds_exit E h2)"
    "np_array (np_cast E) [a0, a1, a2] (band_dtype a0) = Inr (ns_data ns)"
    "geopyspark_conf E ''local[*]'' ''sentinel-ingest-example'' = Inr (ns_conf ns)"
    "SparkContext E (ns_conf ns) = Inr (ns_pysc ns)"
    "ds_bounds E (ds_exit E h2) = Inr (left, bottom, right, top)"
    "gps_Extent E left bottom right top = Inr (ns_extent ns)"
    "ds_crs_to_dict E (ds_exit E h2) = Inr d"
    "epsg_of_dict d = Inr epsg"
    "gps_ProjectedExtent E (ns_extent ns) epsg = Inr (ns_projected_extent ns)"
    "ds_nodata E (ds_exit E h2) = Inr nodata"
    "Tile_from_numpy_array E (ns_data ns) nodata = Inr (ns_tile ns)"
    "parallelize E (ns_pysc ns) [(ns_projected_extent ns, ns_tile ns)] = Inr (ns_rdd ns)"
    "from_numpy_rdd E SPATIAL (ns_rdd ns) = Inr (ns_raster_layer ns)"
    by (rule complete_run)
  have p: "epsg_of_dict d = Inr (int (decimal_value ds)) \<and>
        gps_ProjectedExtent E (ns_extent ns) (int (decimal_value ds)) =
          Inr (ns_projected_extent ns)"
    if "d ''init'' = Some (PStr (''epsg:'' @ ds)) \<and> ds \<noteq> [] \<and> list_all is_digit ds" for ds
  proof -
    from that have "epsg_of_dict d = Inr (int (decimal_value ds))"
      by (simp add: epsg_of_dict_epsg)
    with r(15,16) show ?thesis by simp
  qed
  show ?thesis
    apply (rule exI[of _ "ds_exit E h2"])
    apply (rule exI[of _ left], rule exI[of _ bottom], rule exI[of _ right], rule exI[of _ top])
    apply (rule exI[of _ d])
    using r(8,12,13,14) p by blast
qed

theorem extent_and_epsg_from_metadata_witness:
  "ns_f (projr (fst (run (ref_ext bucket) Map.empty))) = Some B10_handle \<and>
   map_sum id (\<lambda>d. d ''init'') (ds_crs_to_dict (ref_ext bucket) B10_handle) =
     Inr (Some (PStr (''epsg:'' @ ''32632''))) \<and>
   list_all is_digit ''32632'' \<and>
   ns_extent (projr (fst (run (ref_ext bucket) Map.empty))) =
     ExtentObj 499980 4690200 609780 4800000 \<and>
   ns_projected_extent (projr (fst (run (ref_ext bucket) Map.empty))) =
     ProjectedExtentObj (ExtentObj 499980 4690200 609780 4800000) (int (decimal_value ''32632'')) \<and>
   decimal_value ''32632'' = 32632"
proof -
  have "map_sum id (\<lambda>d. d ''init'') (ds_crs_to_dict (ref_ext bucket) B10_handle) =
     Inr (Some (PStr (''epsg:'' @ ''32632'')))"
    by (simp add: ref_ext_def B10_handle_def)
  then show ?thesis
    using extent_and_epsg_from_metadata[OF run_bucket]
    by (simp add: run_bucket digit_val_def B10_handle_def is_digit_def)
qed

text \<open>
  C6, as amended. When the cell that reads and stacks the bands (lines 97 to 104)
  returns, whatever the world it is run in, the stacked array has three bands, one per
  input file and in the order of the list, and the dtype of the band of the first file;
  the band at index \<open>i\<close> is the decoded first band of the \<open>i\<close>-th file converted to the
  dtype of the first file's band, and equal to it when the band has that dtype already.
\<close>

theorem stack_in_file_order:
  assumes "cell_read E w = (Inr (arrs, f, data), w')"
  shows "length jp2s = 3 \<and> length arrs = 3 \<and> length (stack_bands data) = 3 \<and>
     stack_shape data = 3 # band_shape (arrs ! 0) \<and>
     stack_dtype data = band_dtype (arrs ! 0) \<and>
     (\<forall>i < 3.
        decoded E (fs w) (jp2s ! i) = Inr (arrs ! i) \<and>
        stack_bands data ! i = converted_rows (np_cast E) (band_dtype (arrs ! 0)) (arrs ! i) \<and>
        (band_dtype (arrs ! i) = band_dtype (arrs ! 0) \<longrightarrow>
           stack_bands data ! i = band_rows (arrs ! i)))"
proof -
  from cell_read_Inr[OF assms] obtain h0 h1 h2 a0 a1 a2 where
    r: "rio_open E ''/tmp/B01.jp2'' (fs w ''/tmp/B01.jp2'') = Inr h0" "ds_read E h0 1 = Inr a0"
       "rio_open E ''/tmp/B09.jp2'' (fs w ''/tmp/B09.jp2'') = Inr h1" "ds_read E h1 1 = Inr a1"
       "rio_open E ''/tmp/B10.jp2'' (fs w ''/tmp/B10.jp2'') = Inr h2" "ds_read E h2 1 = Inr a2"
    and arrs: "arrs = [a0, a1, a2]"
    and np: "np_array (np_cast E) [a0, a1, a2] (band_dtype a0) = Inr data"
    by blast
  from np have data: "data = \<lparr>stack_dtype = band_dtype a0, stack_shape = 3 # band_shape a0,
       stack_bands = [converted_rows (np_cast E) (band_dtype a0) a0,
                      converted_rows (np_cast E) (band_dtype a0) a1,
                      converted_rows (np_cast E) (band_dtype a0) a2]\<rparr>"
    unfolding np_array_Inr by simp
  have dec: "decoded E (fs w) ''/tmp/B01.jp2'' = Inr a0" "decoded E (fs w) ''/tmp/B09.jp2'' = Inr a1"
    "decoded E (fs w) ''/tmp/B10.jp2'' = Inr a2"
    by (rule decoded_Inr[where files = "fs w", OF r(1,2)],
        rule decoded_Inr[where files = "fs w", OF r(3,4)],
        rule decoded_Inr[where files = "fs w", OF r(5,6)])
  have b: "decoded E (fs w) (jp2s ! i) = Inr (arrs ! i) \<and>
        stack_bands data ! i = converted_rows (np_cast E) (band_dtype (arrs ! 0)) (arrs ! i) \<and>
        (band_dtype (arrs ! i) = band_dtype (arrs ! 0) \<longrightarrow>
           stack_bands data ! i = band_rows (arrs ! i))"
    if "i < 3" for i
  proof -
    from that consider "i = 0" | "i = 1" | "i = 2" by linarith
    then show ?thesis
    proof cases
      case 1
      then show ?thesis using dec(1) by (simp add: arrs data jp2s_def converted_rows_same)
    next
      case 2
      then show ?thesis using dec(2) by (simp add: arrs data jp2s_def converted_rows_same)
    next
      case 3
      then show ?thesis using dec(3) by (simp add: arrs data jp2s_def converted_rows_same)
    qed
  qed
  have l: "length jp2s = 3 \<and> length arrs = 3 \<and> length (stack_bands data) = 3 \<and>
     stack_shape data = 3 # band_shape (arrs ! 0) \<and>
     stack_dtype data = band_dtype (arrs ! 0)"
    by (simp add: arrs data jp2s_def)
  show ?thesis using l b by blast
qed

theorem stack_in_file_order_witness:
  "fst (cell_read (ref_ext mixed_bucket)
      \<lparr>fs = downloaded (ref_ext mixed_bucket) Map.empty, trace = []\<rparr>) =
     Inr ([\<lparr>band_dtype = UInt8, band_shape = [1, 2], band_rows = [[17, 23]]\<rparr>,
           \<lparr>band_dtype = UInt16, band_shape = [1, 2], band_rows = [[300, 4]]\<rparr>,
           \<lparr>band_dtype = UInt16, band_shape = [1, 2], band_rows = [[12, 9]]\<rparr>],
          Some B10_handle,
          \<lparr>stack_dtype = UInt8, stack_shape = [3, 1, 2],
             stack_bands = [[[17, 23]], [[44, 4]], [[12, 9]]]\<rparr>) \<and>
   decoded (ref_ext mixed_bucket) (downloaded (ref_ext mixed_bucket) Map.empty) (jp2s ! 0) =
     Inr \<lparr>band_dtype = UInt8, band_shape = [1, 2], band_rows = [[17, 23]]\<rparr> \<and>
   decoded (ref_ext mixed_bucket) (downloaded (ref_ext mixed_bucket) Map.empty) (jp2s ! 2) =
     Inr \<lparr>band_dtype = UInt16, band_shape = [1, 2], band_rows = [[12, 9]]\<rparr>"
proof -
  have c: "cell_read (ref_ext mixed_bucket)
      \<lparr>fs = downloaded (ref_ext mixed_bucket) Map.empty, trace = []\<rparr> =
     (Inr ([\<lparr>band_dtype = UInt8, band_shape = [1, 2], band_rows = [[17, 23]]\<rparr>,
           \<lparr>band_dtype = UInt16, band_shape = [1, 2], band_rows = [[300, 4]]\<rparr>,
           \<lparr>band_dtype = UInt16, band_shape = [1, 2], band_rows = [[12, 9]]\<rparr>],
          Some B10_handle,
          \<lparr>stack_dtype = UInt8, stack_shape = [3, 1, 2],
             stack_bands = [[[17, 23]], [[44, 4]], [[12, 9]]]\<rparr>),
      snd (cell_read (ref_ext mixed_bucket)
        \<lparr>fs = downloaded (ref_ext mixed_bucket) Map.empty, trace = []\<rparr>))"
    by (simp add: prod_eq_iff cell_read_mixed)
  from stack_in_file_order[OF c] show ?thesis
    by (simp add: cell_read_mixed)
qed

text \<open>
  C6, as stated, fails: when the first band is \<open>uint8\<close> and the second \<open>uint16\<close>, the
  band at index 1 of the stacked array is not the decoded band of the second file: 300
  has become 44.
\<close>

theorem converted_band_differs:
  "decoded (ref_ext mixed_bucket) (downloaded (ref_ext mixed_bucket) Map.empty) (jp2s ! 1) =
     Inr \<lparr>band_dtype = UInt16, band_shape = [1, 2], band_rows = [[300, 4]]\<rparr> \<and>
   stack_bands (ns_data (projr (fst (run (ref_ext mixed_bucket) Map.empty)))) ! 1 = [[44, 4]]"
  by (simp add: run_mixed decoded_mixed jp2s_def)

text \<open>
  C7, as amended. The calls of a run are a prefix of the notebook's text, whatever the
  libraries return. In a complete run the stack, the RDD and the layer are one call each;
  the download is three commands, the decoding nine calls (open, read and close for each
  file) and the wrapping eight.
\<close>

theorem calls_per_step:
  "prefix (calls (run E files)) notebook_calls \<and>
   (\<not> isl (fst (run E files)) \<longrightarrow>
      calls (run E files) = notebook_calls \<and>
      calls_of_step Download (calls (run E files)) = download_calls \<and>
      calls_of_step Decode (calls (run E files)) = concat (map loop_calls jp2s) \<and>
      calls_of_step Stack (calls (run E files)) = [NpArray] \<and>
      calls_of_step Wrap (calls (run E files)) =
        [DatasetBounds, GpsExtent, DatasetCrsToDict 129, GpsProjectedExtent,
         DatasetCrsToDict 149, DatasetCrsToDict 161, DatasetNodata, TileFromNumpyArray] \<and>
      calls_of_step ConstructRDD (calls (run E files)) = [Parallelize] \<and>
      calls_of_step ConstructLayer (calls (run E files)) = [RasterLayerFromNumpyRdd])"
  using prefix_notebook_calls[of E files] complete_run_calls[of E files]
  by (simp add: calls_of_step_notebook_calls)

theorem calls_per_step_witness:
  "\<not> isl (fst (run (ref_ext bucket) Map.empty)) \<and>
   calls_of_step Decode (calls (run (ref_ext bucket) Map.empty)) =
     [RasterioOpen ''/tmp/B01.jp2'', DatasetRead ''/tmp/B01.jp2'', DatasetExit ''/tmp/B01.jp2'',
      RasterioOpen ''/tmp/B09.jp2'', DatasetRead ''/tmp/B09.jp2'', DatasetExit ''/tmp/B09.jp2'',
      RasterioOpen ''/tmp/B10.jp2'', DatasetRead ''/tmp/B10.jp2'', DatasetExit ''/tmp/B10.jp2'']"
  using calls_per_step[of "ref_ext bucket" Map.empty]
  by (simp add: run_bucket calls_of_step_notebook_calls loop_calls_def jp2s_def)

text \<open>
  C7, as stated, fails: the download, the decoding and the wrapping are three, nine and
  eight calls.
\<close>

theorem download_is_three_calls:
  "length (calls_of_step Download (calls (run (ref_ext bucket) Map.empty))) = 3 \<and>
   length (calls_of_step Decode (calls (run (ref_ext bucket) Map.empty))) = 9 \<and>
   length (calls_of_step Wrap (calls (run (ref_ext bucket) Map.empty))) = 8"
proof -
  have "calls (run (ref_ext bucket) Map.empty) = notebook_calls"
    by (rule complete_run_calls) (simp add: run_bucket)
  then show ?thesis
    by (simp add: calls_of_step_notebook_calls download_calls_def loop_calls_def jp2s_def)
qed

text \<open>
  C8. Two runs with the same libraries, whatever their initial files and whatever
  \<open>curl\<close> does, that leave the same three files after the download end alike: with the
  same exception, or with the same namespace (extent, projected extent, stacked array,
  tile, handle \<open>f\<close>) and the same EPSG code and nodata value read from \<open>f\<close>.
\<close>

theorem deterministic_in_files:
  assumes "map (downloaded E1 files1) jp2s = map (downloaded E2 files2) jp2s"
    and "E2 = E1\<lparr>curl := c\<rparr>"
  shows "fst (run E1 files1) = fst (run E2 files2) \<and>
    (\<forall>ns. fst (run E1 files1) = Inr ns \<longrightarrow>
       fst (run E2 files2) = Inr ns \<and>
       epsg_read E2 ns = epsg_read E1 ns \<and> nodata_read E2 ns = nodata_read E1 ns)"
proof -
  let ?w1 = "snd (cell_download E1 \<lparr>fs = files1, trace = []\<rparr>)"
  let ?w2 = "snd (cell_download E2 \<lparr>fs = files2, trace = []\<rparr>)"
  have "map (fs ?w1) jp2s = map (fs ?w2) jp2s"
    using assms(1) by (simp add: cell_download_fs)
  from function_of_filesD(1)[OF fof_after_download this]
  have a: "fst (after_download E1 ?w1) = fst (after_download E1 ?w2)" .
  have e: "after_download E2 = after_download E1"
    unfolding assms(2) by (simp add: after_download_curl)
  have r: "fst (run E1 files1) = fst (run E2 files2)"
    using a by (simp add: run_after_download e)
  have "epsg_read E2 ns = epsg_read E1 ns" "nodata_read E2 ns = nodata_read E1 ns" for ns
    unfolding assms(2) by (simp_all add: epsg_read_def nodata_read_def)
  with r show ?thesis by simp
qed

theorem deterministic_in_files_witness:
  "map (downloaded (ref_ext bucket) Map.empty) jp2s =
     map (downloaded (ref_ext offline) stale_tmp) jp2s \<and>
   ref_ext offline = (ref_ext bucket)\<lparr>curl := ref_curl offline\<rparr> \<and>
   fst (run (ref_ext bucket) Map.empty) = fst (run (ref_ext offline) stale_tmp) \<and>
   \<not> isl (fst (run (ref_ext offline) stale_tmp))"
proof -
  have r: "fst (run (ref_ext bucket) Map.empty) = fst (run (ref_ext offline) stale_tmp)"
    using deterministic_in_files[OF same_downloaded offline_is_bucket] by (rule conjunct1)
  show ?thesis
    by (intro conjI same_downloaded offline_is_bucket r run_stale(1))
qed

text \<open>
  C9. In a complete run \<open>f\<close> is the handle of the last path of the list,
  \<open>/tmp/B10.jp2\<close>, as its \<open>with\<close> block has left it; the bounds, the CRS dictionary
  and the nodata value behind the extent, the EPSG code and the tile are read from that
  handle; and the run is the same whatever the three accessors answer on any other
  handle: the metadata of the first two files is not consulted.
\<close>

theorem metadata_from_last_file:
  assumes "fst (run E files) = Inr ns"
  shows "last jp2s = ''/tmp/B10.jp2'' \<and>
    (\<exists>h. rio_open E (last jp2s) (downloaded E files (last jp2s)) = Inr h \<and>
       ns_f ns = Some (ds_exit E h) \<and>
       (\<exists>left bottom right top d epsg nodata.
          ds_bounds E (ds_exit E h) = Inr (left, bottom, right, top) \<and>
          gps_Extent E left bottom right top = Inr (ns_extent ns) \<and>
          ds_crs_to_dict E (ds_exit E h) = Inr d \<and> epsg_of_dict d = Inr epsg \<and>
          gps_ProjectedExtent E (ns_extent ns) epsg = Inr (ns_projected_extent ns) \<and>
          ds_nodata E (ds_exit E h) = Inr nodata \<and>
          Tile_from_numpy_array E (ns_data ns) nodata = Inr (ns_tile ns)) \<and>
       (\<forall>bounds' crs' nodata'.
          bounds' (ds_exit E h) = ds_bounds E (ds_exit E h) \<and>
          crs' (ds_exit E h) = ds_crs_to_dict E (ds_exit E h) \<and>
          nodata' (ds_exit E h) = ds_nodata E (ds_exit E h) \<longrightarrow>
          run (E\<lparr>ds_bounds := bounds', ds_crs_to_dict := crs', ds_nodata := nodata'\<rparr>) files =
            run E files))"
proof -
  from assms obtain h0 h1 h2 a0 a1 a2 left bottom right top d epsg nodata where
    r: "rio_open E ''/tmp/B01.jp2'' (downloaded E files ''/tmp/B01.jp2'') = Inr h0"
    "ds_read E h0 1 = Inr a0"
    "rio_open E ''/tmp/B09.jp2'' (downloaded E files ''/tmp/B09.jp2'') = Inr h1"
    "ds_read E h1 1 = Inr a1"
    "rio_open E ''/tmp/B10.jp2'' (downloaded E files ''/tmp/B10.jp2'') = Inr h2"
    "ds_read E h2 1 = Inr a2"
    "ns_arrs ns = [a0, a1, a2]"
    "ns_f ns = Some (ds_exit E h2)"
    "np_array (np_cast E) [a0, a1, a2] (band_dtype a0) = Inr (ns_data ns)"
    "geopyspark_conf E ''local[*]'' ''sentinel-ingest-example'' = Inr (ns_conf ns)"
    "SparkContext E (ns_conf ns) = Inr (ns_pysc ns)"
    "ds_bounds E (ds_exit E h2) = Inr (left, bottom, right, top)"
    "gps_Extent E left bottom right top = Inr (ns_extent ns)"
    "ds_crs_to_dict E (ds_exit E h2) = Inr d"
    "epsg_of_dict d = Inr epsg"
    "gps_ProjectedExtent E (ns_extent ns) epsg = Inr (ns_projected_extent ns)"
    "ds_nodata E (ds_exit E h2) = Inr nodata"
    "Tile_from_numpy_array E (ns_data ns) nodata = Inr (ns_tile ns)"
    "parallelize E (ns_pysc ns) [(ns_projected_extent ns, ns_tile ns)] = Inr (ns_rdd ns)"
    "from_numpy_rdd E SPATIAL (ns_rdd ns) = Inr (ns_raster_layer ns)"
    by (rule complete_run)
  have l: "last jp2s = ''/tmp/B10.jp2''" by (simp add: jp2s_def)
  have m: "\<exists>left bottom right top d epsg nodata.
          ds_bounds E (ds_exit E h2) = Inr (left, bottom, right, top) \<and>
          gps_Extent E left bottom right top = Inr (ns_extent ns) \<and>
          ds_crs_to_dict E (ds_exit E h2) = Inr d \<and> epsg_of_dict d = Inr epsg \<and>
          gps_ProjectedExtent E (ns_extent ns) epsg = Inr (ns_projected_extent ns) \<and>
          ds_nodata E (ds_exit E h2) = Inr nodata \<and>
          Tile_from_numpy_array E (ns_data ns) nodata = Inr (ns_tile ns)"
    apply (rule exI[of _ left], rule exI[of _ bottom], rule exI[of _ right], rule exI[of _ top])
    apply (rule exI[of _ d], rule exI[of _ epsg], rule exI[of _ nodata])
    apply (intro conjI)
    apply (rule r)+
    done
  have n: "run (E\<lparr>ds_bounds := b, ds_crs_to_dict := c, ds_nodata := n\<rparr>) files = run E files"
    if "b (ds_exit E h2) = ds_bounds E (ds_exit E h2) \<and>
        c (ds_exit E h2) = ds_crs_to_dict E (ds_exit E h2) \<and>
        n (ds_exit E h2) = ds_nodata E (ds_exit E h2)" for b c n
    using that
    by (intro metadata_not_consulted[where E = E and b = b and c = c and n = n and h = "ds_exit E h2",
          OF assms r(8)]) simp_all
  show ?thesis
    unfolding l
    apply (rule conjI, rule refl)
    apply (rule exI[of _ h2])
    using r(5,8) m n by blast
qed

theorem metadata_from_last_file_witness:
  "run ((ref_ext mixed_bucket)\<lparr>ds_bounds := only_for B10_handle ref_bounds,
          ds_crs_to_dict := only_for B10_handle ref_crs_to_dict,
          ds_nodata := only_for B10_handle ref_nodata\<rparr>) Map.empty =
   run (ref_ext mixed_bucket) Map.empty \<and>
   ns_f (projr (fst (run (ref_ext mixed_bucket) Map.empty))) = Some B10_handle \<and>
   ns_projected_extent (projr (fst (run (ref_ext mixed_bucket) Map.empty))) =
     ProjectedExtentObj (ExtentObj 499980 4690200 609780 4800000) 32632"
proof -
  from metadata_from_last_file[OF run_mixed] obtain h where
    o: "rio_open (ref_ext mixed_bucket) (last jp2s)
          (downloaded (ref_ext mixed_bucket) Map.empty (last jp2s)) = Inr h"
    and n: "\<forall>bounds' crs' nodata'.
          bounds' (ds_exit (ref_ext mixed_bucket) h) =
            ds_bounds (ref_ext mixed_bucket) (ds_exit (ref_ext mixed_bucket) h) \<and>
          crs' (ds_exit (ref_ext mixed_bucket) h) =
            ds_crs_to_dict (ref_ext mixed_bucket) (ds_exit (ref_ext mixed_bucket) h) \<and>
          nodata' (ds_exit (ref_ext mixed_bucket) h) =
            ds_nodata (ref_ext mixed_bucket) (ds_exit (ref_ext mixed_bucket) h) \<longrightarrow>
          run ((ref_ext mixed_bucket)\<lparr>ds_bounds := bounds', ds_crs_to_dict := crs',
                 ds_nodata := nodata'\<rparr>) Map.empty =
            run (ref_ext mixed_bucket) Map.empty"
    by (elim conjE exE) (rule that)
  have h: "ref_exit h = B10_handle"
    using o by (auto simp: reference_fields jp2s_def downloaded_mixed_B10 tile_file_def B10_handle_def)
  have "run ((ref_ext mixed_bucket)\<lparr>ds_bounds := only_for B10_handle ref_bounds,
          ds_crs_to_dict := only_for B10_handle ref_crs_to_dict,
          ds_nodata := only_for B10_handle ref_nodata\<rparr>) Map.empty =
   run (ref_ext mixed_bucket) Map.empty"
    by (rule n[rule_format]) (simp add: h only_for_def reference_fields)
  then show ?thesis by (simp add: run_mixed)
qed

text \<open>
  C10. In a complete run the dtype of the stacked array is the dtype of the first decoded
  band, and every band is converted to it: a band of another dtype has each of its
  elements converted from its own dtype to the first band's.
\<close>

theorem stack_dtype_of_first_band:
  assumes "fst (run E files) = Inr ns"
  shows "\<exists>a0 a1 a2.
     decoded E (downloaded E files) ''/tmp/B01.jp2'' = Inr a0 \<and>
     decoded E (downloaded E files) ''/tmp/B09.jp2'' = Inr a1 \<and>
     decoded E (downloaded E files) ''/tmp/B10.jp2'' = Inr a2 \<and>
     ns_arrs ns = [a0, a1, a2] \<and>
     stack_dtype (ns_data ns) = band_dtype a0 \<and>
     stack_bands (ns_data ns) =
       [converted_rows (np_cast E) (band_dtype a0) a0,
        converted_rows (np_cast E) (band_dtype a0) a1,
        converted_rows (np_cast E) (band_dtype a0) a2] \<and>
     (\<forall>a \<in> set [a1, a2]. band_dtype a \<noteq> band_dtype a0 \<longrightarrow>
        converted_rows (np_cast E) (band_dtype a0) a =
          map (map (np_cast E (band_dtype a) (band_dtype a0))) (band_rows a))"
proof -
  from assms obtain a0 a1 a2 where
    r: "decoded E (downloaded E files) ''/tmp/B01.jp2'' = Inr a0"
    "decoded E (downloaded E files) ''/tmp/B09.jp2'' = Inr a1"
    "decoded E (downloaded E files) ''/tmp/B10.jp2'' = Inr a2"
    "ns_arrs ns = [a0, a1, a2]"
    "ns_data ns = \<lparr>stack_dtype = band_dtype a0, stack_shape = 3 # band_shape a0,
       stack_bands = [converted_rows (np_cast E) (band_dtype a0) a0,
                      converted_rows (np_cast E) (band_dtype a0) a1,
                      converted_rows (np_cast E) (band_dtype a0) a2]\<rparr>"
    "band_shape a1 = band_shape a0" "band_shape a2 = band_shape a0"
    by (rule complete_run_stack)
  show ?thesis
    apply (rule exI[of _ a0], rule exI[of _ a1], rule exI[of _ a2])
    using r(1-4) by (simp add: r(5) converted_rows_other)
qed

theorem stack_dtype_of_first_band_witness:
  "decoded (ref_ext mixed_bucket) (downloaded (ref_ext mixed_bucket) Map.empty) ''/tmp/B01.jp2'' =
     Inr \<lparr>band_dtype = UInt8, band_shape = [1, 2], band_rows = [[17, 23]]\<rparr> \<and>
   decoded (ref_ext mixed_bucket) (downloaded (ref_ext mixed_bucket) Map.empty) ''/tmp/B09.jp2'' =
     Inr \<lparr>band_dtype = UInt16, band_shape = [1, 2], band_rows = [[300, 4]]\<rparr> \<and>
   UInt16 \<noteq> UInt8 \<and>
   stack_dtype (ns_data (projr (fst (run (ref_ext mixed_bucket) Map.empty)))) = UInt8 \<and>
   stack_bands (ns_data (projr (fst (run (ref_ext mixed_bucket) Map.empty)))) ! 1 =
     map (map (cast_int UInt16 UInt8)) [[300, 4]] \<and>
   map (map (cast_int UInt16 UInt8)) [[300, 4]] = [[44, 4]]"
  using stack_dtype_of_first_band[OF run_mixed]
  by (simp add: run_mixed decoded_mixed)

end
